theory Spec2Isabelle
  imports Main "HOL-Library.AList" "HOL-Library.Sublist"
begin

section \<open>JavaScript values\<close>

text \<open>
  The sync engine (googleDriveSync) exchanges JSON documents with Google Drive and keeps
  its local state in key/value storage. Values are modelled by one datatype.

  \<^item> \<open>JNum\<close> carries an integer: the engine only produces and compares millisecond
    timestamps and the envelope version.
  \<^item> Strings come in three forms. \<open>JIso t\<close> is the string that
    \<^verbatim>\<open>new Date(t).toISOString()\<close> yields, and which \<^verbatim>\<open>new Date(s)\<close> reads back as
    the time \<open>t\<close>. \<open>JText v\<close> is the string that \<^verbatim>\<open>JSON.stringify(v)\<close> yields, and
    which \<^verbatim>\<open>JSON.parse\<close> reads back as \<open>v\<close>. \<open>JStr s\<close> is any other string: one
    that is neither a date nor a JSON text.
  \<^item> \<open>JDate d\<close> is a \<^verbatim>\<open>Date\<close> object whose \<^verbatim>\<open>getTime()\<close> is \<open>d\<close>
    (\<open>NaN\<close> for an invalid date).
  \<^item> A property that is absent (\<^verbatim>\<open>undefined\<close>) is \<open>None\<close> of \<open>json option\<close>.
\<close>

datatype jsnum = NaN | Num int

datatype json =
    JNull
  | JBool bool
  | JNum int
  | JStr string
  | JIso int
  | JText json
  | JDate jsnum
  | JArr "json list"
  | JObj "(string \<times> json) list"

datatype error = TypeError | UNAUTHORIZED | NetworkFailure

text \<open>The comparison \<^verbatim>\<open>a > b\<close> on numbers: false as soon as one side is \<^verbatim>\<open>NaN\<close>.\<close>

fun js_gt :: "jsnum \<Rightarrow> jsnum \<Rightarrow> bool" where
  "js_gt (Num a) (Num b) = (b < a)"
| "js_gt _ _ = False"

text \<open>
  \<^verbatim>\<open>new Date(v).getTime()\<close>. The engine applies it to values declared as strings; for
  the other primitive values the model follows \<^verbatim>\<open>Date\<close>, and for arrays and objects
  (whose string conversion is not modelled) it gives \<open>NaN\<close>.
\<close>

fun getTime :: "json \<Rightarrow> jsnum" where
  "getTime JNull = Num 0"
| "getTime (JBool b) = Num (if b then 1 else 0)"
| "getTime (JNum n) = (if \<bar>n\<bar> \<le> 8640000000000000 then Num n else NaN)"
| "getTime (JIso t) = Num t"
| "getTime (JDate d) = d"
| "getTime _ = NaN"

text \<open>\<^verbatim>\<open>new Date(v)\<close> of a property that may be absent.\<close>

definition newDate :: "json option \<Rightarrow> json" where
  "newDate v = JDate (case v of None \<Rightarrow> NaN | Some x \<Rightarrow> getTime x)"

text \<open>Truthiness, as \<^verbatim>\<open>if (v)\<close> and \<^verbatim>\<open>!v\<close> test it.\<close>

fun falsy :: "json \<Rightarrow> bool" where
  "falsy JNull = True"
| "falsy (JBool b) = (\<not> b)"
| "falsy (JNum n) = (n = 0)"
| "falsy (JStr s) = (s = [])"
| "falsy _ = False"

text \<open>
  What \<^verbatim>\<open>JSON.stringify\<close> followed by \<^verbatim>\<open>JSON.parse\<close> makes of a value: a
  \<^verbatim>\<open>Date\<close> becomes its ISO string, an invalid one \<^verbatim>\<open>null\<close>.
\<close>

fun wire :: "json \<Rightarrow> json" where
  "wire (JDate (Num t)) = JIso t"
| "wire (JDate NaN) = JNull"
| "wire (JArr xs) = JArr (map wire xs)"
| "wire (JObj kvs) = JObj (map (\<lambda>(k, v). (k, wire v)) kvs)"
| "wire v = v"

text \<open>Decimal rendering of numbers, as template literals produce it.\<close>

fun digits :: "nat \<Rightarrow> string" where
  "digits n = (if n < 10 then [''0123456789'' ! n]
               else digits (n div 10) @ [''0123456789'' ! (n mod 10)])"

declare digits.simps [simp del]

definition showInt :: "int \<Rightarrow> string" where
  "showInt i = (if i < 0 then CHR ''-'' # digits (nat (- i)) else digits (nat i))"

fun showNum :: "jsnum \<Rightarrow> string" where
  "showNum NaN = ''NaN''"
| "showNum (Num i) = showInt i"

fun showFlag :: "bool option \<Rightarrow> string" where
  "showFlag None = ''undefined''"
| "showFlag (Some True) = ''true''"
| "showFlag (Some False) = ''false''"

fun join :: "string \<Rightarrow> string list \<Rightarrow> string" where
  "join sep [] = []"
| "join sep [x] = x"
| "join sep (x # y # ys) = x @ sep @ join sep (y # ys)"

section \<open>Notes and their metadata projection (NotesContext)\<close>

text \<open>
  Modelled from the spec: the type \<^verbatim>\<open>Note\<close> (types/note), whose declaration is not
  among the sources. It is the entity of the spec: an identity, mutable fields (title,
  content, flags), a creation and an update time. The record has the fields that
  \<^verbatim>\<open>extractNoteMeta\<close> and the memo key read, with the optionality that
  \<^verbatim>\<open>NoteMeta\<close> declares. A \<^verbatim>\<open>Date\<close> is given by its \<^verbatim>\<open>getTime()\<close>. The fields
  \<^verbatim>\<open>id\<close> and \<^verbatim>\<open>type\<close> carry a prime, the plain names being taken.
\<close>

record Note =
  id' :: string
  type' :: string
  title :: string
  color :: "string option"
  folderId :: "string option"
  isPinned :: "bool option"
  isFavorite :: "bool option"
  pinnedOrder :: "int option"
  isArchived :: "bool option"
  archivedAt :: "jsnum option"
  isDeleted :: "bool option"
  deletedAt :: "jsnum option"
  isHidden :: "bool option"
  isProtected :: "bool option"
  metaDescription :: "string option"
  reminderEnabled :: "bool option"
  reminderTime :: "jsnum option"
  createdAt :: jsnum
  updatedAt :: jsnum
  content :: string

record NoteMeta =
  id' :: string
  type' :: string
  title :: string
  color :: "string option"
  folderId :: "string option"
  isPinned :: "bool option"
  isFavorite :: "bool option"
  pinnedOrder :: "int option"
  isArchived :: "bool option"
  archivedAt :: "jsnum option"
  isDeleted :: "bool option"
  deletedAt :: "jsnum option"
  isHidden :: "bool option"
  isProtected :: "bool option"
  metaDescription :: "string option"
  reminderEnabled :: "bool option"
  reminderTime :: "jsnum option"
  createdAt :: jsnum
  updatedAt :: jsnum
  contentPreview :: string
  hasFullContent :: bool

text \<open>
  \<^verbatim>\<open>extractNoteMeta\<close>. The helper \<^verbatim>\<open>getTextPreviewFromHtml\<close> (utils/contentPreview)
  is not among the sources and is the parameter \<open>preview\<close>.
\<close>

definition extractNoteMeta :: "(string \<Rightarrow> nat \<Rightarrow> string) \<Rightarrow> Note \<Rightarrow> NoteMeta" where
  "extractNoteMeta preview note =
     \<lparr> id' = Note.id' note,
       type' = Note.type' note,
       title = Note.title note,
       color = Note.color note,
       folderId = Note.folderId note,
       isPinned = Note.isPinned note,
       isFavorite = Note.isFavorite note,
       pinnedOrder = Note.pinnedOrder note,
       isArchived = Note.isArchived note,
       archivedAt = Note.archivedAt note,
       isDeleted = Note.isDeleted note,
       deletedAt = Note.deletedAt note,
       isHidden = Note.isHidden note,
       isProtected = Note.isProtected note,
       metaDescription = Note.metaDescription note,
       reminderEnabled = Note.reminderEnabled note,
       reminderTime = Note.reminderTime note,
       createdAt = Note.createdAt note,
       updatedAt = Note.updatedAt note,
       contentPreview = preview (Note.content note) 200,
       hasFullContent = True \<rparr>"

text \<open>
  The dependency of the \<^verbatim>\<open>useMemo\<close> that holds \<^verbatim>\<open>notesMeta\<close>: one string built
  from id, update time, title and three flags of every note.
\<close>

definition memoKey :: "Note list \<Rightarrow> string" where
  "memoKey notes =
     join '','' (map (\<lambda>n. Note.id' n @ ''-'' @ showNum (Note.updatedAt n) @ ''-'' @ Note.title n
                        @ ''-'' @ showFlag (Note.isPinned n) @ ''-'' @ showFlag (Note.isArchived n)
                        @ ''-'' @ showFlag (Note.isDeleted n)) notes)"

text \<open>
  \<^verbatim>\<open>notesMeta\<close>: \<^verbatim>\<open>useMemo(() => notes.map(extractNoteMeta), [key])\<close>. The memo cell
  holds the key and the value of the last computation (\<open>None\<close> before the first
  render); the projection is computed again only when the key has changed.
\<close>

definition notesMeta ::
  "(string \<Rightarrow> nat \<Rightarrow> string) \<Rightarrow> (string \<times> NoteMeta list) option \<Rightarrow> Note list
     \<Rightarrow> string \<times> NoteMeta list" where
  "notesMeta preview memo notes =
     (let key = memoKey notes
      in case memo of
           None \<Rightarrow> (key, map (extractNoteMeta preview) notes)
         | Some (key', value) \<Rightarrow>
             if key' = key then (key', value)
             else (key, map (extractNoteMeta preview) notes))"

section \<open>Sync envelopes and conflict resolution (googleDriveSync)\<close>

record SyncMetadata =
  lastSyncTime :: json
  deviceId :: json
  version :: int

record 'a SyncableData =
  data :: 'a
  metadata :: SyncMetadata

datatype winner = Local | Remote

text \<open>\<^verbatim>\<open>resolveConflict\<close>: the newer timestamp wins, the remote side on a tie.\<close>

definition resolveConflict :: "'a SyncableData \<Rightarrow> 'a SyncableData \<Rightarrow> winner \<times> 'a" where
  "resolveConflict local remote =
     (let localTime = getTime (lastSyncTime (metadata local));
          remoteTime = getTime (lastSyncTime (metadata remote))
      in if js_gt localTime remoteTime then (Local, data local)
         else (Remote, data remote))"

section \<open>The device, the clock and the network\<close>

text \<open>
  One record holds everything the engine reads and writes.

  \<^item> \<open>accessToken\<close>, \<open>syncInProgress\<close>, \<open>refreshTokenFn\<close>: the fields of
    \<^verbatim>\<open>GoogleDriveSyncManager\<close> that its methods use. The refresh callback is given by
    what it resolves to (\<open>None\<close>: no callback was set).
  \<^item> \<open>settings\<close>, \<open>notesDB\<close>, \<open>tasksDB\<close>, \<open>folders\<close>: the local stores.
  \<^item> \<open>files\<close>, \<open>nextFileId\<close>: the application's private folder on Google Drive.
  \<^item> \<open>log\<close>: the requests sent so far; \<open>net\<close> tells how the \<open>n\<close>-th request ends.
  \<^item> \<open>clock\<close>, \<open>ticks\<close>: the \<open>n\<close>-th reading of the clock, and how many were taken.
  \<^item> \<open>rnd\<close>: the suffix \<^verbatim>\<open>Math.random().toString(36).substr(2, 9)\<close> yields.
  \<^item> \<open>events\<close>: the events dispatched on \<^verbatim>\<open>window\<close>.
\<close>

datatype content = Unparseable | Envelope "json SyncableData"

text \<open>
  A file of the Drive folder, with what the server keeps for it. The fields are
  \<^verbatim>\<open>id\<close> and \<^verbatim>\<open>name\<close> of \<^verbatim>\<open>DriveFile\<close> (the id, an opaque handle, is a
  number here; \<^verbatim>\<open>modifiedTime\<close> is never read), and the stored bytes: a JSON text
  that parses to an envelope, as the result type of \<^verbatim>\<open>readFile\<close> declares it, or
  bytes for which \<^verbatim>\<open>response.json()\<close> throws.
\<close>

record DriveFile =
  fileId :: nat
  fileName :: string
  fileContent :: content

datatype status = Ok | Status401 | StatusOther | NetworkError

datatype request =
    Probe string
  | Find string string
  | Read string nat
  | Write string string content "nat option"

record report =
  success :: bool
  errors :: "string list"

record world =
  accessToken :: "string option"
  syncInProgress :: bool
  refreshTokenFn :: "string option option"
  settings :: "(string \<times> json) list"
  notesDB :: "json list"
  tasksDB :: json
  folders :: json
  files :: "DriveFile list"
  nextFileId :: nat
  log :: "request list"
  net :: "nat \<Rightarrow> status"
  clock :: "nat \<Rightarrow> int"
  ticks :: nat
  rnd :: string
  events :: "(string \<times> report) list"

text \<open>\<^verbatim>\<open>new Date()\<close> and \<^verbatim>\<open>Date.now()\<close>: the next reading of the clock.\<close>

definition dateNow :: "world \<Rightarrow> int \<times> world" where
  "dateNow w = (clock w (ticks w), w\<lparr>ticks := Suc (ticks w)\<rparr>)"

text \<open>
  The modules utils/settingsStorage, utils/noteStorage, utils/taskStorage,
  utils/folderStorage and utils/activityLogger are not among the sources. They are the
  persisted local state and the local domain stores of the spec.
\<close>

text \<open>
  Modelled from the spec: \<^verbatim>\<open>getSetting\<close> of utils/settingsStorage. The settings are
  values under string keys; reading a key that was never written gives the default.
\<close>

definition getSetting :: "string \<Rightarrow> json \<Rightarrow> world \<Rightarrow> json" where
  "getSetting key dflt w = (case map_of (settings w) key of None \<Rightarrow> dflt | Some v \<Rightarrow> v)"

text \<open>
  Modelled from the spec: \<^verbatim>\<open>setSetting\<close> of utils/settingsStorage. Writing replaces
  the value under the key, or adds the key.
\<close>

definition setSetting :: "string \<Rightarrow> json \<Rightarrow> world \<Rightarrow> world" where
  "setSetting key v w = w\<lparr>settings := AList.update key v (settings w)\<rparr>"

text \<open>
  Modelled from the spec: \<^verbatim>\<open>getAllSettings\<close> of utils/settingsStorage, the whole
  store as one record.
\<close>

definition getAllSettings :: "world \<Rightarrow> (string \<times> json) list" where
  "getAllSettings w = settings w"

text \<open>
  Modelled from the spec: \<^verbatim>\<open>loadNotesFromDB\<close> of utils/noteStorage, the
  \<^verbatim>\<open>load() -> T\<close> of the notes store: it returns what was saved last.
\<close>

definition loadNotesFromDB :: "world \<Rightarrow> json list" where
  "loadNotesFromDB w = notesDB w"

text \<open>
  Modelled from the spec: \<^verbatim>\<open>saveNotesToDB\<close> of utils/noteStorage, the
  \<^verbatim>\<open>save(T) -> void\<close> of the notes store.
\<close>

definition saveNotesToDB :: "json list \<Rightarrow> world \<Rightarrow> world" where
  "saveNotesToDB ns w = w\<lparr>notesDB := ns\<rparr>"

text \<open>
  Modelled from the spec: \<^verbatim>\<open>loadTasksFromDB\<close> of utils/taskStorage, the
  \<^verbatim>\<open>load() -> T\<close> of the tasks store.
\<close>

definition loadTasksFromDB :: "world \<Rightarrow> json" where
  "loadTasksFromDB w = tasksDB w"

text \<open>
  Modelled from the spec: \<^verbatim>\<open>saveTasksToDB\<close> of utils/taskStorage, the
  \<^verbatim>\<open>save(T) -> void\<close> of the tasks store.
\<close>

definition saveTasksToDB :: "json \<Rightarrow> world \<Rightarrow> world" where
  "saveTasksToDB ts w = w\<lparr>tasksDB := ts\<rparr>"

text \<open>
  Modelled from the spec: \<^verbatim>\<open>loadFolders\<close> of utils/folderStorage, the
  \<^verbatim>\<open>load() -> T\<close> of the folders store.
\<close>

definition loadFolders :: "world \<Rightarrow> json" where
  "loadFolders w = folders w"

text \<open>
  Modelled from the spec: \<^verbatim>\<open>saveFolders\<close> of utils/folderStorage, the
  \<^verbatim>\<open>save(T) -> void\<close> of the folders store.
\<close>

definition saveFolders :: "json \<Rightarrow> world \<Rightarrow> world" where
  "saveFolders fs w = w\<lparr>folders := fs\<rparr>"

text \<open>
  Modelled from the spec: \<^verbatim>\<open>getActivities\<close> of utils/activityLogger, the
  \<^verbatim>\<open>load() -> T\<close> of the activity log, which is kept under the settings key that
  \<^verbatim>\<open>syncActivity\<close> saves the merged log to.
\<close>

definition getActivities :: "world \<Rightarrow> json" where
  "getActivities w = getSetting ''userActivityLog'' (JArr []) w"

text \<open>\<^verbatim>\<open>getDeviceId\<close>: the stored device id, generated and stored on first use.\<close>

definition getDeviceId :: "world \<Rightarrow> json \<times> world" where
  "getDeviceId w =
     (let deviceId = getSetting ''device_id'' (JStr []) w
      in if falsy deviceId
         then (case dateNow w of (t, w1) \<Rightarrow>
                 (let deviceId = JStr (''device_'' @ showInt t @ ''_'' @ rnd w1)
                  in (deviceId, setSetting ''device_id'' deviceId w1)))
         else (deviceId, w))"

text \<open>
  \<^verbatim>\<open>fetch\<close>: the request is sent and logged, and the network tells how it ends.
\<close>

definition fetch :: "request \<Rightarrow> world \<Rightarrow> status \<times> world" where
  "fetch req w = (net w (length (log w)), w\<lparr>log := log w @ [req]\<rparr>)"

text \<open>
  \<^verbatim>\<open>driveRequest\<close>: throws when the network fails and on status 401; otherwise returns
  the response, of which the callers read \<^verbatim>\<open>response.ok\<close>.
\<close>

definition driveRequest :: "request \<Rightarrow> world \<Rightarrow> (error + bool) \<times> world" where
  "driveRequest req w =
     (case fetch req w of
        (NetworkError, w1) \<Rightarrow> (Inl NetworkFailure, w1)
      | (Status401, w1) \<Rightarrow> (Inl UNAUTHORIZED, w1)
      | (StatusOther, w1) \<Rightarrow> (Inr False, w1)
      | (Ok, w1) \<Rightarrow> (Inr True, w1))"

text \<open>\<^verbatim>\<open>findFile\<close>: the first file of that name, \<open>None\<close> on any failure.\<close>

definition findFile :: "string \<Rightarrow> string \<Rightarrow> world \<Rightarrow> DriveFile option \<times> world" where
  "findFile token name w =
     (case driveRequest (Find token name) w of
        (Inl e, w1) \<Rightarrow> (None, w1)
      | (Inr ok, w1) \<Rightarrow>
          if \<not> ok then (None, w1)
          else (find (\<lambda>f. fileName f = name) (files w1), w1))"

text \<open>
  \<^verbatim>\<open>readFile\<close>: the parsed content; \<open>None\<close> on any failure, also when the content does
  not parse. The server answers a file id it does not know with an error status.
\<close>

definition readFile :: "string \<Rightarrow> nat \<Rightarrow> world \<Rightarrow> json SyncableData option \<times> world" where
  "readFile token fid w =
     (case driveRequest (Read token fid) w of
        (Inl e, w1) \<Rightarrow> (None, w1)
      | (Inr ok, w1) \<Rightarrow>
          if \<not> ok then (None, w1)
          else (case find (\<lambda>f. fileId f = fid) (files w1) of
                  None \<Rightarrow> (None, w1)
                | Some f \<Rightarrow>
                    (case fileContent f of
                       Unparseable \<Rightarrow> (None, w1)
                     | Envelope e \<Rightarrow> (Some e, w1))))"

text \<open>The body \<^verbatim>\<open>JSON.stringify(content)\<close> of an envelope, as the server parses it.\<close>

definition wireEnvelope :: "json SyncableData \<Rightarrow> json SyncableData" where
  "wireEnvelope e =
     \<lparr> data = wire (data e),
       metadata = \<lparr> lastSyncTime = wire (lastSyncTime (metadata e)),
                    deviceId = wire (deviceId (metadata e)),
                    version = version (metadata e) \<rparr> \<rparr>"

text \<open>
  \<^verbatim>\<open>writeFile\<close>: with a file id the file is updated in place (PATCH), without one a
  new file is created (POST); the result is the id of the written file, \<open>None\<close> on any
  failure.
\<close>

definition writeFile ::
  "string \<Rightarrow> string \<Rightarrow> json SyncableData \<Rightarrow> nat option \<Rightarrow> world \<Rightarrow> nat option \<times> world" where
  "writeFile token name c existingFileId w =
     (let body = Envelope (wireEnvelope c)
      in case driveRequest (Write token name body existingFileId) w of
           (Inl e, w1) \<Rightarrow> (None, w1)
         | (Inr ok, w1) \<Rightarrow>
             if \<not> ok then (None, w1)
             else (case existingFileId of
                     Some fid \<Rightarrow>
                       if fid \<in> fileId ` set (files w1)
                       then (Some fid,
                             w1\<lparr>files := map (\<lambda>f. if fileId f = fid
                                                  then f\<lparr>fileName := name, fileContent := body\<rparr>
                                                  else f) (files w1)\<rparr>)
                       else (None, w1)
                   | None \<Rightarrow>
                       (Some (nextFileId w1),
                        w1\<lparr>files := files w1 @ [\<lparr>fileId = nextFileId w1, fileName = name,
                                                  fileContent = body\<rparr>],
                           nextFileId := Suc (nextFileId w1)\<rparr>)))"

text \<open>\<^verbatim>\<open>getLocalDataWithMetadata\<close>: the local payload with the local sync time.\<close>

definition getLocalDataWithMetadata ::
  "string \<Rightarrow> json \<Rightarrow> world \<Rightarrow> json SyncableData \<times> world" where
  "getLocalDataWithMetadata key d w =
     (let lastSync = getSetting (''sync_'' @ key @ ''_time'') (JIso 0) w
      in case getDeviceId w of (dev, w1) \<Rightarrow>
           (\<lparr> data = d,
              metadata = \<lparr> lastSyncTime = lastSync, deviceId = dev, version = 1 \<rparr> \<rparr>, w1))"

section \<open>The sync manager\<close>

text \<open>
  \<^verbatim>\<open>ensureValidToken\<close>: probes Drive with the current token; on status 401 asks the
  refresh callback for a new one.
\<close>

definition ensureValidToken :: "world \<Rightarrow> string option \<times> world" where
  "ensureValidToken w =
     (case accessToken w of
        None \<Rightarrow> (None, w)
      | Some tok \<Rightarrow>
          if tok = [] then (None, w)
          else (case fetch (Probe tok) w of
                  (Ok, w1) \<Rightarrow> (Some tok, w1)
                | (Status401, w1) \<Rightarrow>
                    (case refreshTokenFn w1 of
                       Some (Some newToken) \<Rightarrow>
                         if newToken = [] then (None, w1)
                         else (Some newToken, w1\<lparr>accessToken := Some newToken\<rparr>)
                     | _ \<Rightarrow> (None, w1))
                | (_, w1) \<Rightarrow> (None, w1)))"

text \<open>
  The seven sync methods are one procedure written out seven times; they differ in the
  key, the file name, the way the local payload is loaded and what is done when the
  remote side wins. \<open>syncUnit\<close> is that procedure:

  \<^item> \<open>upload\<close> is the construction of a fresh envelope around the local payload and
    its \<^verbatim>\<open>writeFile\<close>, the result of which the methods do not look at;
  \<^item> \<open>finish\<close> is the closing \<^verbatim>\<open>setSetting('sync_<key>_time', now)\<close> and
    \<^verbatim>\<open>return true\<close>;
  \<^item> an exception inside the \<^verbatim>\<open>try\<close> block is caught and makes the method return
    \<^verbatim>\<open>false\<close>. The local stores do not fail, and the Drive helpers catch their own
    errors, so the only exceptions are raised by the remote-wins step, before it has
    written anything.
\<close>

definition upload :: "string \<Rightarrow> string \<Rightarrow> json \<Rightarrow> nat option \<Rightarrow> world \<Rightarrow> world" where
  "upload token name localPayload existingFileId w =
     (case dateNow w of (t, w1) \<Rightarrow>
        (case getDeviceId w1 of (dev, w2) \<Rightarrow>
           (let syncData = \<lparr> data = localPayload,
                              metadata = \<lparr> lastSyncTime = JIso t, deviceId = dev, version = 1 \<rparr> \<rparr>
            in snd (writeFile token name syncData existingFileId w2))))"

definition finish :: "string \<Rightarrow> world \<Rightarrow> bool \<times> world" where
  "finish key w =
     (case dateNow w of (t, w1) \<Rightarrow>
        (True, setSetting (''sync_'' @ key @ ''_time'') (JIso t) w1))"

definition syncUnit ::
  "string \<Rightarrow> string \<Rightarrow> (world \<Rightarrow> json) \<Rightarrow> (json \<Rightarrow> json \<Rightarrow> world \<Rightarrow> error + world)
     \<Rightarrow> world \<Rightarrow> bool \<times> world" where
  "syncUnit key name loadLocal applyRemote w =
     (case ensureValidToken w of
        (None, w0) \<Rightarrow> (False, w0)
      | (Some token, w0) \<Rightarrow>
          (let localPayload = loadLocal w0
           in case getLocalDataWithMetadata key localPayload w0 of (localData, w1) \<Rightarrow>
                (case findFile token name w1 of
                   (Some remoteFile, w2) \<Rightarrow>
                     (case readFile token (fileId remoteFile) w2 of
                        (Some remoteData, w3) \<Rightarrow>
                          (case resolveConflict localData remoteData of
                             (Remote, d) \<Rightarrow>
                               (case applyRemote d localPayload w3 of
                                  Inl e \<Rightarrow> (False, w3)
                                | Inr w4 \<Rightarrow> finish key w4)
                           | (Local, d) \<Rightarrow>
                               finish key
                                 (upload token name localPayload (Some (fileId remoteFile)) w3))
                      | (None, w3) \<Rightarrow> finish key w3)
                 | (None, w2) \<Rightarrow> finish key (upload token name localPayload None w2))))"

text \<open>
  A method waits for Drive several times, and other code runs while it does. The two
  definitions below cut the procedure at one such wait: \<open>syncUnitLocate\<close> runs it up to
  the request of \<^verbatim>\<open>findFile\<close>, and \<open>syncUnitSettle\<close> runs it on from the answer.
  Run one after the other they are \<open>syncUnit\<close>.
\<close>

definition syncUnitLocate ::
  "string \<Rightarrow> string \<Rightarrow> (world \<Rightarrow> json) \<Rightarrow> world
     \<Rightarrow> (string \<times> json \<times> json SyncableData \<times> DriveFile option) option \<times> world" where
  "syncUnitLocate key name loadLocal w =
     (case ensureValidToken w of
        (None, w0) \<Rightarrow> (None, w0)
      | (Some token, w0) \<Rightarrow>
          (let localPayload = loadLocal w0
           in case getLocalDataWithMetadata key localPayload w0 of (localData, w1) \<Rightarrow>
                (case findFile token name w1 of (remoteFile, w2) \<Rightarrow>
                   (Some (token, localPayload, localData, remoteFile), w2))))"

definition syncUnitSettle ::
  "string \<Rightarrow> string \<Rightarrow> (json \<Rightarrow> json \<Rightarrow> world \<Rightarrow> error + world)
     \<Rightarrow> string \<times> json \<times> json SyncableData \<times> DriveFile option \<Rightarrow> world \<Rightarrow> bool \<times> world" where
  "syncUnitSettle key name applyRemote located w2 =
     (case located of (token, localPayload, localData, found) \<Rightarrow>
        (case found of
           Some remoteFile \<Rightarrow>
             (case readFile token (fileId remoteFile) w2 of
                (Some remoteData, w3) \<Rightarrow>
                  (case resolveConflict localData remoteData of
                     (Remote, d) \<Rightarrow>
                       (case applyRemote d localPayload w3 of
                          Inl e \<Rightarrow> (False, w3)
                        | Inr w4 \<Rightarrow> finish key w4)
                   | (Local, d) \<Rightarrow>
                       finish key
                         (upload token name localPayload (Some (fileId remoteFile)) w3))
              | (None, w3) \<Rightarrow> finish key w3)
         | None \<Rightarrow> finish key (upload token name localPayload None w2)))"

section \<open>The seven domains\<close>

datatype dataType = Notes | Tasks | Folders | Sections | Settings | Activity | Media

fun SYNC_FILES :: "dataType \<Rightarrow> string" where
  "SYNC_FILES Notes = ''nota_notes.json''"
| "SYNC_FILES Tasks = ''nota_tasks.json''"
| "SYNC_FILES Folders = ''nota_folders.json''"
| "SYNC_FILES Sections = ''nota_sections.json''"
| "SYNC_FILES Settings = ''nota_settings.json''"
| "SYNC_FILES Activity = ''nota_activity.json''"
| "SYNC_FILES Media = ''nota_media_index.json''"

text \<open>
  Payloads are declared as \<^verbatim>\<open>Note[]\<close>, \<^verbatim>\<open>any[]\<close>, \<^verbatim>\<open>Record<string, any>\<close> and
  \<^verbatim>\<open>any\<close>, and hold whatever the remote file holds. Where JavaScript throws on a
  value of another shape the model raises \<open>TypeError\<close>. Reading a property of
  \<^verbatim>\<open>null\<close> throws; a value that is not an object has none of the properties read here.
  The characters of date strings and JSON texts are not modelled: iterating such a string
  is an error in the model, and it has no entries.
\<close>

fun getProp :: "json \<Rightarrow> string \<Rightarrow> json option" where
  "getProp (JObj kvs) k = map_of kvs k"
| "getProp _ k = None"

text \<open>
  \<^verbatim>\<open>Object.entries(v)\<close>: the own properties of a value, which for an array and a
  string are its indices; \<^verbatim>\<open>null\<close> has none to ask for.
\<close>

fun entries :: "json \<Rightarrow> error + (string \<times> json) list" where
  "entries JNull = Inl TypeError"
| "entries (JObj kvs) = Inr kvs"
| "entries (JArr xs) = Inr (zip (map digits [0..<length xs]) xs)"
| "entries (JStr s) = Inr (zip (map digits [0..<length s]) (map (\<lambda>c. JStr [c]) s))"
| "entries _ = Inr []"

text \<open>The own properties that \<^verbatim>\<open>{...v}\<close> copies; none for \<^verbatim>\<open>null\<close>.\<close>

definition spread :: "json \<Rightarrow> (string \<times> json) list" where
  "spread v = (case entries v of Inl e \<Rightarrow> [] | Inr kvs \<Rightarrow> kvs)"

text \<open>\<^verbatim>\<open>xs.map(f)\<close> with a callback that may throw.\<close>

fun mapE :: "('a \<Rightarrow> error + 'b) \<Rightarrow> 'a list \<Rightarrow> error + 'b list" where
  "mapE f [] = Inr []"
| "mapE f (x # xs) =
     (case f x of
        Inl e \<Rightarrow> Inl e
      | Inr y \<Rightarrow> (case mapE f xs of Inl e \<Rightarrow> Inl e | Inr ys \<Rightarrow> Inr (y # ys)))"

text \<open>
  The restoring of a note that came from the remote file (\<^verbatim>\<open>syncNotes\<close>): the two
  time stamps and the time stamps of the voice recordings become dates again.
\<close>

definition restoreRecording :: "json \<Rightarrow> error + json" where
  "restoreRecording r =
     (case r of
        JNull \<Rightarrow> Inl TypeError
      | _ \<Rightarrow> Inr (JObj (AList.update ''timestamp'' (newDate (getProp r ''timestamp'')) (spread r))))"

definition restoreNote :: "json \<Rightarrow> error + json" where
  "restoreNote note =
     (case note of
        JNull \<Rightarrow> Inl TypeError
      | _ \<Rightarrow>
          (case (case getProp note ''voiceRecordings'' of
                   None \<Rightarrow> Inr (JArr [])
                 | Some JNull \<Rightarrow> Inr (JArr [])
                 | Some (JArr rs) \<Rightarrow>
                     (case mapE restoreRecording rs of Inl e \<Rightarrow> Inl e | Inr rs' \<Rightarrow> Inr (JArr rs'))
                 | Some _ \<Rightarrow> Inl TypeError) of
             Inl e \<Rightarrow> Inl e
           | Inr recordings \<Rightarrow>
               Inr (JObj (AList.update ''voiceRecordings'' recordings
                         (AList.update ''updatedAt'' (newDate (getProp note ''updatedAt''))
                         (AList.update ''createdAt'' (newDate (getProp note ''createdAt''))
                         (spread note)))))))"

definition restoreNotes :: "json \<Rightarrow> json \<Rightarrow> world \<Rightarrow> error + world" where
  "restoreNotes d localNotes w =
     (case d of
        JArr ns \<Rightarrow>
          (case mapE restoreNote ns of
             Inl e \<Rightarrow> Inl e
           | Inr restoredNotes \<Rightarrow> Inr (saveNotesToDB restoredNotes w))
      | _ \<Rightarrow> Inl TypeError)"

definition syncNotes :: "world \<Rightarrow> bool \<times> world" where
  "syncNotes = syncUnit ''notes'' (SYNC_FILES Notes) (\<lambda>w. JArr (loadNotesFromDB w)) restoreNotes"

definition syncTasks :: "world \<Rightarrow> bool \<times> world" where
  "syncTasks = syncUnit ''tasks'' (SYNC_FILES Tasks) loadTasksFromDB
                 (\<lambda>d localTasks w. Inr (saveTasksToDB d w))"

definition syncFolders :: "world \<Rightarrow> bool \<times> world" where
  "syncFolders = syncUnit ''folders'' (SYNC_FILES Folders) loadFolders
                 (\<lambda>d localFolders w. Inr (saveFolders d w))"

definition syncSections :: "world \<Rightarrow> bool \<times> world" where
  "syncSections = syncUnit ''sections'' (SYNC_FILES Sections)
                 (getSetting ''todo_sections'' (JArr []))
                 (\<lambda>d sections w. Inr (setSetting ''todo_sections'' d w))"

text \<open>
  \<^verbatim>\<open>syncSettings\<close>: the local payload is the settings store without the keys of the
  sync engine, the device and the Google sign-in; when the remote side wins every
  entry of the remote payload is written to the store.
\<close>

definition syncableSettings :: "world \<Rightarrow> json" where
  "syncableSettings w =
     JObj (filter (\<lambda>(key, v). \<not> prefix ''sync_'' key
                              \<and> \<not> prefix ''device_'' key
                              \<and> \<not> prefix ''google_'' key) (getAllSettings w))"

definition restoreSettings :: "json \<Rightarrow> json \<Rightarrow> world \<Rightarrow> error + world" where
  "restoreSettings d localSettings w =
     (case entries d of
        Inl e \<Rightarrow> Inl e
      | Inr kvs \<Rightarrow> Inr (fold (\<lambda>(key, v). setSetting key v) kvs w))"

definition syncSettings :: "world \<Rightarrow> bool \<times> world" where
  "syncSettings = syncUnit ''settings'' (SYNC_FILES Settings) syncableSettings restoreSettings"

text \<open>
  \<^verbatim>\<open>syncActivity\<close>: when the remote side wins, the remote and the local entries are
  merged, keeping the first entry of every id.

  \<open>iterate\<close> is the spreading of a value into an array literal. \<open>strictEq\<close> is
  \<^verbatim>\<open>===\<close> on two property values: primitive values are equal when they are the same
  value, and two objects taken from parsed documents are never the same object.
  \<open>findById\<close> is \<^verbatim>\<open>acc.find(e => e.id === entry.id)\<close>, and \<open>reduceLog\<close> the
  \<^verbatim>\<open>reduce\<close> over the concatenation, with its accumulator.
\<close>

fun iterate :: "json \<Rightarrow> error + json list" where
  "iterate (JArr xs) = Inr xs"
| "iterate (JStr s) = Inr (map (\<lambda>c. JStr [c]) s)"
| "iterate _ = Inl TypeError"

fun idOf :: "json \<Rightarrow> error + json option" where
  "idOf JNull = Inl TypeError"
| "idOf v = Inr (getProp v ''id'')"

fun primitive :: "json \<Rightarrow> bool" where
  "primitive (JDate d) = False"
| "primitive (JArr xs) = False"
| "primitive (JObj kvs) = False"
| "primitive _ = True"

fun strictEq :: "json option \<Rightarrow> json option \<Rightarrow> bool" where
  "strictEq None None = True"
| "strictEq (Some a) (Some b) = (primitive a \<and> a = b)"
| "strictEq _ _ = False"

fun findById :: "json list \<Rightarrow> json \<Rightarrow> error + json option" where
  "findById [] entry = Inr None"
| "findById (e # es) entry =
     (case idOf e of
        Inl x \<Rightarrow> Inl x
      | Inr i \<Rightarrow>
          (case idOf entry of
             Inl x \<Rightarrow> Inl x
           | Inr j \<Rightarrow> if strictEq i j then Inr (Some e) else findById es entry))"

fun reduceLog :: "json list \<Rightarrow> json list \<Rightarrow> error + json list" where
  "reduceLog acc [] = Inr acc"
| "reduceLog acc (entry # rest) =
     (case findById acc entry of
        Inl x \<Rightarrow> Inl x
      | Inr found \<Rightarrow>
          if (case found of None \<Rightarrow> True | Some e \<Rightarrow> falsy e)
          then reduceLog (acc @ [entry]) rest
          else reduceLog acc rest)"

text \<open>
  The entries the activity logger writes: objects whose \<^verbatim>\<open>id\<close>, when present, is a
  primitive value.
\<close>

definition wellFormedEntry :: "json \<Rightarrow> bool" where
  "wellFormedEntry e =
     (case e of
        JObj kvs \<Rightarrow> (case map_of kvs ''id'' of None \<Rightarrow> True | Some i \<Rightarrow> primitive i)
      | _ \<Rightarrow> False)"

definition mergeActivity :: "json \<Rightarrow> json \<Rightarrow> world \<Rightarrow> error + world" where
  "mergeActivity d activityLog w =
     (case iterate d of
        Inl e \<Rightarrow> Inl e
      | Inr remoteEntries \<Rightarrow>
          (case iterate activityLog of
             Inl e \<Rightarrow> Inl e
           | Inr localEntries \<Rightarrow>
               (case reduceLog [] (remoteEntries @ localEntries) of
                  Inl e \<Rightarrow> Inl e
                | Inr mergedLog \<Rightarrow> Inr (setSetting ''userActivityLog'' (JArr mergedLog) w))))"

definition syncActivity :: "world \<Rightarrow> bool \<times> world" where
  "syncActivity = syncUnit ''activity'' (SYNC_FILES Activity) getActivities mergeActivity"

text \<open>
  \<^verbatim>\<open>syncMedia\<close> exchanges the index of the media, which is kept as a JSON text under a
  settings key. \<^verbatim>\<open>getLocalMediaIndex\<close> parses it, and falls back to the empty index
  when there is none or when \<^verbatim>\<open>JSON.parse\<close> throws, as it does for a string that is
  not a JSON text. The stored value is declared a string; of the other values a number
  and \<^verbatim>\<open>true\<close> parse to themselves.
\<close>

definition getLocalMediaIndex :: "world \<Rightarrow> json" where
  "getLocalMediaIndex w =
     (let indexStr = getSetting ''media_index'' (JStr []) w;
          empty = JObj [(''images'', JArr []), (''audio'', JArr [])]
      in if \<not> falsy indexStr
         then (case indexStr of
                 JText v \<Rightarrow> v
               | JNum n \<Rightarrow> JNum n
               | JBool b \<Rightarrow> JBool b
               | _ \<Rightarrow> empty)
         else empty)"

definition syncMedia :: "world \<Rightarrow> bool \<times> world" where
  "syncMedia = syncUnit ''media'' (SYNC_FILES Media) getLocalMediaIndex
                 (\<lambda>d mediaIndex w. Inr (setSetting ''media_index'' (JText (wire d)) w))"

section \<open>Full sync and instant sync\<close>

text \<open>
  \<^verbatim>\<open>Promise.allSettled\<close> over the seven methods. All of them are started, and each
  runs to its end whatever the others return. The methods run on one thread and touch
  the shared state only between their waits; the model runs them one after the other,
  in the order in which they are started. A method of the model always returns, so
  every result is \<open>Fulfilled\<close>.
\<close>

datatype 'a settled = Fulfilled 'a | Rejected

fun allSettled :: "(world \<Rightarrow> bool \<times> world) list \<Rightarrow> world \<Rightarrow> bool settled list \<times> world" where
  "allSettled [] w = ([], w)"
| "allSettled (u # us) w =
     (case u w of (r, w1) \<Rightarrow>
        (case allSettled us w1 of (rs, w2) \<Rightarrow> (Fulfilled r # rs, w2)))"

definition dispatchEvent :: "string \<Rightarrow> report \<Rightarrow> world \<Rightarrow> world" where
  "dispatchEvent name detail w = w\<lparr>events := events w @ [(name, detail)]\<rparr>"

text \<open>
  \<^verbatim>\<open>syncAll\<close>: rejected when the flag is set; else the flag is set, the seven methods
  run, the failures are collected, the time of the full sync is stored, the event
  \<^verbatim>\<open>syncComplete\<close> is dispatched, and the \<^verbatim>\<open>finally\<close> block clears the flag.

  The method waits once, for \<^verbatim>\<open>Promise.allSettled\<close>, and is written in the parts
  that this wait separates: \<open>syncAllEnter\<close> is the code before it, the test of the flag
  and the assignment \<^verbatim>\<open>this.syncInProgress = true\<close>; \<open>syncAllSettle\<close> is the code
  after it, from the results of the seven methods to the \<^verbatim>\<open>finally\<close> block.
\<close>

definition syncAllEnter :: "world \<Rightarrow> report + world" where
  "syncAllEnter w =
     (if syncInProgress w
      then Inl \<lparr>success = False, errors = [''Sync already in progress'']\<rparr>
      else Inr (w\<lparr>syncInProgress := True\<rparr>))"

definition syncAllSettle :: "bool settled list \<Rightarrow> world \<Rightarrow> report \<times> world" where
  "syncAllSettle results w2 =
     (let types = [''notes'', ''tasks'', ''folders'', ''sections'', ''settings'',
                   ''activity'', ''media''];
          errors = concat (map (\<lambda>index.
                     (case results ! index of
                        Rejected \<Rightarrow> [''Failed to sync '' @ types ! index]
                      | Fulfilled v \<Rightarrow>
                          if \<not> v then [''Failed to sync '' @ types ! index] else []))
                     [0..<length results])
      in case dateNow w2 of (t, w3) \<Rightarrow>
           (let w4 = setSetting ''last_full_sync'' (JIso t) w3;
                result = \<lparr>success = (errors = []), errors = errors\<rparr>;
                w5 = dispatchEvent ''syncComplete'' result w4
            in (result, w5\<lparr>syncInProgress := False\<rparr>)))"

definition syncAll :: "world \<Rightarrow> report \<times> world" where
  "syncAll w =
     (case syncAllEnter w of
        Inl busy \<Rightarrow> (busy, w)
      | Inr w1 \<Rightarrow>
          (case allSettled [syncNotes, syncTasks, syncFolders, syncSections,
                            syncSettings, syncActivity, syncMedia] w1 of
             (results, w2) \<Rightarrow> syncAllSettle results w2))"

text \<open>The seven methods, in the order in which \<^verbatim>\<open>syncAll\<close> starts them.\<close>

abbreviation syncAllUnits :: "(world \<Rightarrow> bool \<times> world) list" where
  "syncAllUnits \<equiv>
     [syncNotes, syncTasks, syncFolders, syncSections, syncSettings, syncActivity, syncMedia]"

text \<open>
  \<^verbatim>\<open>instantSync\<close>: returns \<^verbatim>\<open>false\<close> without a token (\<^verbatim>\<open>null\<close> or the empty
  string), and else runs the method of the domain. The \<^verbatim>\<open>default\<close> branch of the
  switch is not reachable for an argument of the declared type.
\<close>

definition instantSync :: "dataType \<Rightarrow> world \<Rightarrow> bool \<times> world" where
  "instantSync dataType w =
     (if accessToken w = None \<or> accessToken w = Some [] then (False, w)
      else (case dataType of
              Notes \<Rightarrow> syncNotes w
            | Tasks \<Rightarrow> syncTasks w
            | Folders \<Rightarrow> syncFolders w
            | Sections \<Rightarrow> syncSections w
            | Settings \<Rightarrow> syncSettings w
            | Activity \<Rightarrow> syncActivity w
            | Media \<Rightarrow> syncMedia w))"

text \<open>\<^verbatim>\<open>getLastSyncTime\<close>: the date of the last full sync, \<open>None\<close> for \<^verbatim>\<open>null\<close>.\<close>

definition getLastSyncTime :: "world \<Rightarrow> json option" where
  "getLastSyncTime w =
     (let lastSync = getSetting ''last_full_sync'' (JStr []) w
      in if \<not> falsy lastSync then Some (newDate (Some lastSync)) else None)"

section \<open>Example data\<close>

definition exampleNotes :: "Note list" where
  "exampleNotes =
     [\<lparr> Note.id' = ''n1'', type' = ''regular'', title = ''Groceries'', color = Some ''blue'',
         folderId = None, isPinned = Some True, isFavorite = None, pinnedOrder = Some 0,
         isArchived = None, archivedAt = None, isDeleted = Some False, deletedAt = None,
         isHidden = None, isProtected = None, metaDescription = None,
         reminderEnabled = None, reminderTime = None, createdAt = Num 10, updatedAt = Num 20,
         content = ''milk, eggs'' \<rparr>,
      \<lparr> Note.id' = ''n2'', type' = ''code'', title = ''Snippet'', color = None,
         folderId = Some ''f1'', isPinned = None, isFavorite = Some True, pinnedOrder = None,
         isArchived = Some True, archivedAt = Some (Num 30), isDeleted = None, deletedAt = None,
         isHidden = None, isProtected = None, metaDescription = None,
         reminderEnabled = None, reminderTime = None, createdAt = Num 11, updatedAt = Num 30,
         content = ''print'' \<rparr>]"

definition exampleWorld :: world where
  "exampleWorld =
     \<lparr> accessToken = Some ''token'', syncInProgress = False, refreshTokenFn = None,
       settings = [(''theme'', JStr ''dark''), (''google_user'', JStr ''u''),
                   (''device_id'', JStr ''device_1_abc'')],
       notesDB = [JObj [(''id'', JStr ''n1''), (''createdAt'', JDate (Num 5))]],
       tasksDB = JArr [], folders = JArr [],
       files = [], nextFileId = 0, log = [],
       net = (\<lambda>n. Ok), clock = (\<lambda>n. 1000 + int n), ticks = 0, rnd = ''abc'',
       events = [] \<rparr>"

text \<open>The network fails on the fourth request, the token probe of \<^verbatim>\<open>syncTasks\<close>.\<close>

definition tasksDownWorld :: world where
  "tasksDownWorld = exampleWorld\<lparr>net := (\<lambda>n. if n = 3 then NetworkError else Ok)\<rparr>"

text \<open>A full sync has set the flag and none of its methods has written yet.\<close>

definition inFlightWorld :: world where
  "inFlightWorld = exampleWorld\<lparr>syncInProgress := True\<rparr>"

text \<open>
  The local activity log has the entries 1 and 2; the remote file, stamped later than the
  local sync time, has the entries 2 and 3.
\<close>

definition activityWorld :: world where
  "activityWorld = exampleWorld
     \<lparr> settings := [(''device_id'', JStr ''device_1_abc''),
                     (''userActivityLog'', JArr [JObj [(''id'', JNum 1), (''type'', JStr ''note_create'')],
                                                 JObj [(''id'', JNum 2), (''type'', JStr ''note_update'')]])],
       files := [\<lparr>fileId = 0, fileName = ''nota_activity.json'',
                  fileContent = Envelope
                     \<lparr>data = JArr [JObj [(''id'', JNum 2), (''type'', JStr ''note_update'')],
                                   JObj [(''id'', JNum 3), (''type'', JStr ''note_delete'')]],
                      metadata = \<lparr>lastSyncTime = JIso 500, deviceId = JStr ''device_2_xyz'',
                                   version = 1\<rparr>\<rparr>\<rparr>],
       nextFileId := 1 \<rparr>"

text \<open>The remote notes file exists and its content does not parse.\<close>

definition unparseableWorld :: world where
  "unparseableWorld = exampleWorld
     \<lparr> files := [\<lparr>fileId = 0, fileName = ''nota_notes.json'', fileContent = Unparseable\<rparr>],
       nextFileId := 1 \<rparr>"

text \<open>Nobody is signed in: every sync method fails.\<close>

definition signedOutWorld :: world where
  "signedOutWorld = exampleWorld\<lparr>accessToken := None\<rparr>"

text \<open>
  The fifth request fails: when \<^verbatim>\<open>syncNotes\<close> runs twice, the search for the notes
  file in the second run.
\<close>

definition searchDownWorld :: world where
  "searchDownWorld = exampleWorld\<lparr>net := (\<lambda>n. if n = 4 then NetworkError else Ok)\<rparr>"

text \<open>
  The third request is answered with an error status: in a first run of
  \<^verbatim>\<open>syncNotes\<close>, the creation of the notes file.
\<close>

definition createDownWorld :: world where
  "createDownWorld = exampleWorld\<lparr>net := (\<lambda>n. if n = 2 then StatusOther else Ok)\<rparr>"

section \<open>Last write wins\<close>

lemma resolveConflict_iso:
  "lastSyncTime (metadata l) = JIso a \<Longrightarrow> lastSyncTime (metadata r) = JIso b \<Longrightarrow>
   resolveConflict l r = (if b < a then (Local, data l) else (Remote, data r))"
  by (simp add: resolveConflict_def)

lemma js_gt_asym: "js_gt a b \<Longrightarrow> \<not> js_gt b a"
  by (cases a; cases b) auto

lemma js_gt_irrefl: "\<not> js_gt x x"
  by (cases x) auto

lemma resolveConflict_local_iff:
  "fst (resolveConflict l r) = Local
     \<longleftrightarrow> js_gt (getTime (lastSyncTime (metadata l))) (getTime (lastSyncTime (metadata r)))"
  by (simp add: resolveConflict_def Let_def)

lemma resolveConflict_local:
  "js_gt (getTime (lastSyncTime (metadata l))) (getTime (lastSyncTime (metadata r))) \<Longrightarrow>
   resolveConflict l r = (Local, data l)"
  by (simp add: resolveConflict_def Let_def)

lemma resolveConflict_remote:
  "\<not> js_gt (getTime (lastSyncTime (metadata l))) (getTime (lastSyncTime (metadata r))) \<Longrightarrow>
   resolveConflict l r = (Remote, data r)"
  by (simp add: resolveConflict_def Let_def)

text \<open>
  Claim C1. For every local and remote envelope the resolver selects the local side
  exactly when the local \<open>lastSyncTime\<close> is strictly greater than the remote one, and
  the remote side otherwise, so also when the two are equal; for ISO time stamps of the
  times \<open>a\<close> and \<open>b\<close> "strictly greater" is \<open>b < a\<close>. And of two envelopes \<open>A\<close> and
  \<open>B\<close> with \<open>A\<close> stamped strictly later, the payload of \<open>A\<close> is selected in whichever
  argument position \<open>A\<close> stands.
\<close>

theorem resolveConflict_last_write_wins:
  fixes l r A B :: "'a SyncableData"
  shows "(fst (resolveConflict l r) = Local
            \<longleftrightarrow> js_gt (getTime (lastSyncTime (metadata l))) (getTime (lastSyncTime (metadata r))))
       \<and> (fst (resolveConflict l r) = Local \<longrightarrow> snd (resolveConflict l r) = data l)
       \<and> (fst (resolveConflict l r) \<noteq> Local \<longrightarrow> resolveConflict l r = (Remote, data r))
       \<and> (getTime (lastSyncTime (metadata l)) = getTime (lastSyncTime (metadata r))
            \<longrightarrow> resolveConflict l r = (Remote, data r))
       \<and> (lastSyncTime (metadata l) = JIso a \<and> lastSyncTime (metadata r) = JIso b
            \<longrightarrow> resolveConflict l r = (if b < a then (Local, data l) else (Remote, data r)))
       \<and> (js_gt (getTime (lastSyncTime (metadata A))) (getTime (lastSyncTime (metadata B)))
            \<longrightarrow> resolveConflict A B = (Local, data A) \<and> resolveConflict B A = (Remote, data A))"
proof (intro conjI impI)
  show "fst (resolveConflict l r) = Local
            \<longleftrightarrow> js_gt (getTime (lastSyncTime (metadata l))) (getTime (lastSyncTime (metadata r)))"
    by (rule resolveConflict_local_iff)
  show "snd (resolveConflict l r) = data l" if "fst (resolveConflict l r) = Local"
    using that resolveConflict_local_iff [of l r] resolveConflict_local [of l r] by simp
  show "resolveConflict l r = (Remote, data r)" if "fst (resolveConflict l r) \<noteq> Local"
    using that resolveConflict_local_iff [of l r] resolveConflict_remote [of l r] by simp
  show "resolveConflict l r = (Remote, data r)"
    if "getTime (lastSyncTime (metadata l)) = getTime (lastSyncTime (metadata r))"
    using that resolveConflict_remote [of l r] js_gt_irrefl by simp
  show "resolveConflict l r = (if b < a then (Local, data l) else (Remote, data r))"
    if "lastSyncTime (metadata l) = JIso a \<and> lastSyncTime (metadata r) = JIso b"
    using that resolveConflict_iso [of l a r b] by simp
  show "resolveConflict A B = (Local, data A)"
    if "js_gt (getTime (lastSyncTime (metadata A))) (getTime (lastSyncTime (metadata B)))"
    using that by (rule resolveConflict_local)
  show "resolveConflict B A = (Remote, data A)"
    if "js_gt (getTime (lastSyncTime (metadata A))) (getTime (lastSyncTime (metadata B)))"
    using that js_gt_asym resolveConflict_remote by blast
qed

theorem resolveConflict_last_write_wins_witness:
  "resolveConflict
      \<lparr>data = ''l'', metadata = \<lparr>lastSyncTime = JIso 5, deviceId = JStr ''d1'', version = 1\<rparr>\<rparr>
      \<lparr>data = ''r'', metadata = \<lparr>lastSyncTime = JIso 5, deviceId = JStr ''d2'', version = 1\<rparr>\<rparr>
      = (Remote, ''r'')
   \<and> resolveConflict
      \<lparr>data = ''A'', metadata = \<lparr>lastSyncTime = JIso 9, deviceId = JStr ''d1'', version = 1\<rparr>\<rparr>
      \<lparr>data = ''B'', metadata = \<lparr>lastSyncTime = JIso 7, deviceId = JStr ''d2'', version = 1\<rparr>\<rparr>
      = (Local, ''A'')
   \<and> resolveConflict
      \<lparr>data = ''B'', metadata = \<lparr>lastSyncTime = JIso 7, deviceId = JStr ''d2'', version = 1\<rparr>\<rparr>
      \<lparr>data = ''A'', metadata = \<lparr>lastSyncTime = JIso 9, deviceId = JStr ''d1'', version = 1\<rparr>\<rparr>
      = (Remote, ''A'')"
  using resolveConflict_last_write_wins
    [of "\<lparr>data = ''l'', metadata = \<lparr>lastSyncTime = JIso 5, deviceId = JStr ''d1'', version = 1\<rparr>\<rparr>"
        "\<lparr>data = ''r'', metadata = \<lparr>lastSyncTime = JIso 5, deviceId = JStr ''d2'', version = 1\<rparr>\<rparr>"
        5 5
        "\<lparr>data = ''A'', metadata = \<lparr>lastSyncTime = JIso 9, deviceId = JStr ''d1'', version = 1\<rparr>\<rparr>"
        "\<lparr>data = ''B'', metadata = \<lparr>lastSyncTime = JIso 7, deviceId = JStr ''d2'', version = 1\<rparr>\<rparr>"]
  by (simp add: resolveConflict_def)

section \<open>The metadata projection\<close>

lemma notesMeta_recomputed:
  "memo = None \<or> (\<exists>key' v. memo = Some (key', v) \<and> key' \<noteq> memoKey notes) \<Longrightarrow>
   notesMeta preview memo notes = (memoKey notes, map (extractNoteMeta preview) notes)"
  by (auto simp: notesMeta_def Let_def)

text \<open>
  Claim C8. Whenever the projection is computed (on the first render, or when the memo
  key has changed), it is the list of the notes' projections in the notes' order: the
  ids are the ids of the notes, every field of an element equals the field of its
  note, and the content preview is the preview helper's result for the note's content
  and the bound 200, so at most 200 characters long for a helper that respects its bound.
\<close>

theorem notesMeta_projection:
  assumes "memo = None \<or> (\<exists>key' v. memo = Some (key', v) \<and> key' \<noteq> memoKey notes)"
  shows "map NoteMeta.id' (snd (notesMeta preview memo notes)) = map Note.id' notes
       \<and> NoteMeta.id' ` set (snd (notesMeta preview memo notes)) = Note.id' ` set notes
       \<and> length (snd (notesMeta preview memo notes)) = length notes
       \<and> (\<forall>i < length notes.
             NoteMeta.id' (snd (notesMeta preview memo notes) ! i) = Note.id' (notes ! i)
           \<and> NoteMeta.type' (snd (notesMeta preview memo notes) ! i) = Note.type' (notes ! i)
           \<and> NoteMeta.title (snd (notesMeta preview memo notes) ! i) = Note.title (notes ! i)
           \<and> NoteMeta.color (snd (notesMeta preview memo notes) ! i) = Note.color (notes ! i)
           \<and> NoteMeta.folderId (snd (notesMeta preview memo notes) ! i) = Note.folderId (notes ! i)
           \<and> NoteMeta.isPinned (snd (notesMeta preview memo notes) ! i) = Note.isPinned (notes ! i)
           \<and> NoteMeta.isFavorite (snd (notesMeta preview memo notes) ! i) = Note.isFavorite (notes ! i)
           \<and> NoteMeta.pinnedOrder (snd (notesMeta preview memo notes) ! i) = Note.pinnedOrder (notes ! i)
           \<and> NoteMeta.isArchived (snd (notesMeta preview memo notes) ! i) = Note.isArchived (notes ! i)
           \<and> NoteMeta.archivedAt (snd (notesMeta preview memo notes) ! i) = Note.archivedAt (notes ! i)
           \<and> NoteMeta.isDeleted (snd (notesMeta preview memo notes) ! i) = Note.isDeleted (notes ! i)
           \<and> NoteMeta.deletedAt (snd (notesMeta preview memo notes) ! i) = Note.deletedAt (notes ! i)
           \<and> NoteMeta.isHidden (snd (notesMeta preview memo notes) ! i) = Note.isHidden (notes ! i)
           \<and> NoteMeta.isProtected (snd (notesMeta preview memo notes) ! i) = Note.isProtected (notes ! i)
           \<and> NoteMeta.metaDescription (snd (notesMeta preview memo notes) ! i) = Note.metaDescription (notes ! i)
           \<and> NoteMeta.reminderEnabled (snd (notesMeta preview memo notes) ! i) = Note.reminderEnabled (notes ! i)
           \<and> NoteMeta.reminderTime (snd (notesMeta preview memo notes) ! i) = Note.reminderTime (notes ! i)
           \<and> NoteMeta.createdAt (snd (notesMeta preview memo notes) ! i) = Note.createdAt (notes ! i)
           \<and> NoteMeta.updatedAt (snd (notesMeta preview memo notes) ! i) = Note.updatedAt (notes ! i)
           \<and> NoteMeta.contentPreview (snd (notesMeta preview memo notes) ! i)
               = preview (Note.content (notes ! i)) 200
           \<and> NoteMeta.hasFullContent (snd (notesMeta preview memo notes) ! i))
       \<and> ((\<forall>s k. length (preview s k) \<le> k) \<longrightarrow>
            (\<forall>m \<in> set (snd (notesMeta preview memo notes)). length (NoteMeta.contentPreview m) \<le> 200))"
proof -
  have eq: "snd (notesMeta preview memo notes) = map (extractNoteMeta preview) notes"
    using assms by (simp add: notesMeta_recomputed)
  have ids: "map NoteMeta.id' (map (extractNoteMeta preview) notes) = map Note.id' notes"
    by (simp add: extractNoteMeta_def)
  have idset: "NoteMeta.id' ` set (map (extractNoteMeta preview) notes) = Note.id' ` set notes"
    by (simp add: image_image extractNoteMeta_def)
  have fields: "\<forall>i < length notes.
             NoteMeta.id' (map (extractNoteMeta preview) notes ! i) = Note.id' (notes ! i)
           \<and> NoteMeta.type' (map (extractNoteMeta preview) notes ! i) = Note.type' (notes ! i)
           \<and> NoteMeta.title (map (extractNoteMeta preview) notes ! i) = Note.title (notes ! i)
           \<and> NoteMeta.color (map (extractNoteMeta preview) notes ! i) = Note.color (notes ! i)
           \<and> NoteMeta.folderId (map (extractNoteMeta preview) notes ! i) = Note.folderId (notes ! i)
           \<and> NoteMeta.isPinned (map (extractNoteMeta preview) notes ! i) = Note.isPinned (notes ! i)
           \<and> NoteMeta.isFavorite (map (extractNoteMeta preview) notes ! i) = Note.isFavorite (notes ! i)
           \<and> NoteMeta.pinnedOrder (map (extractNoteMeta preview) notes ! i) = Note.pinnedOrder (notes ! i)
           \<and> NoteMeta.isArchived (map (extractNoteMeta preview) notes ! i) = Note.isArchived (notes ! i)
           \<and> NoteMeta.archivedAt (map (extractNoteMeta preview) notes ! i) = Note.archivedAt (notes ! i)
           \<and> NoteMeta.isDeleted (map (extractNoteMeta preview) notes ! i) = Note.isDeleted (notes ! i)
           \<and> NoteMeta.deletedAt (map (extractNoteMeta preview) notes ! i) = Note.deletedAt (notes ! i)
           \<and> NoteMeta.isHidden (map (extractNoteMeta preview) notes ! i) = Note.isHidden (notes ! i)
           \<and> NoteMeta.isProtected (map (extractNoteMeta preview) notes ! i) = Note.isProtected (notes ! i)
           \<and> NoteMeta.metaDescription (map (extractNoteMeta preview) notes ! i) = Note.metaDescription (notes ! i)
           \<and> NoteMeta.reminderEnabled (map (extractNoteMeta preview) notes ! i) = Note.reminderEnabled (notes ! i)
           \<and> NoteMeta.reminderTime (map (extractNoteMeta preview) notes ! i) = Note.reminderTime (notes ! i)
           \<and> NoteMeta.createdAt (map (extractNoteMeta preview) notes ! i) = Note.createdAt (notes ! i)
           \<and> NoteMeta.updatedAt (map (extractNoteMeta preview) notes ! i) = Note.updatedAt (notes ! i)
           \<and> NoteMeta.contentPreview (map (extractNoteMeta preview) notes ! i)
               = preview (Note.content (notes ! i)) 200
           \<and> NoteMeta.hasFullContent (map (extractNoteMeta preview) notes ! i)"
    by (simp add: extractNoteMeta_def)
  have bound: "(\<forall>s k. length (preview s k) \<le> k) \<longrightarrow>
            (\<forall>m \<in> set (map (extractNoteMeta preview) notes). length (NoteMeta.contentPreview m) \<le> 200)"
    by (auto simp: extractNoteMeta_def)
  show ?thesis
    unfolding eq using ids idset fields bound by (simp only: length_map simp_thms)
qed

theorem notesMeta_projection_witness:
  "map NoteMeta.id' (snd (notesMeta (\<lambda>s k. take k s) None exampleNotes)) = [''n1'', ''n2'']
   \<and> NoteMeta.title (snd (notesMeta (\<lambda>s k. take k s) None exampleNotes) ! 1) = ''Snippet''
   \<and> NoteMeta.contentPreview (snd (notesMeta (\<lambda>s k. take k s) None exampleNotes) ! 0)
         = ''milk, eggs''
   \<and> length (NoteMeta.contentPreview (snd (notesMeta (\<lambda>s k. take k s) None exampleNotes) ! 1))
         \<le> 200"
  using notesMeta_projection [of None exampleNotes "\<lambda>s k. take k s"]
  by (simp add: exampleNotes_def)

section \<open>The busy flag and the sync methods\<close>

lemma dateNow_flag:
  "dateNow (w\<lparr>syncInProgress := b\<rparr>) = map_prod id (\<lambda>w'. w'\<lparr>syncInProgress := b\<rparr>) (dateNow w)"
  by (simp add: dateNow_def)

lemma getSetting_flag [simp]: "getSetting k d (w\<lparr>syncInProgress := b\<rparr>) = getSetting k d w"
  by (simp add: getSetting_def)

lemma setSetting_flag:
  "setSetting k v (w\<lparr>syncInProgress := b\<rparr>) = (setSetting k v w)\<lparr>syncInProgress := b\<rparr>"
  by (simp add: setSetting_def)

lemma getDeviceId_flag:
  "getDeviceId (w\<lparr>syncInProgress := b\<rparr>)
     = map_prod id (\<lambda>w'. w'\<lparr>syncInProgress := b\<rparr>) (getDeviceId w)"
  by (simp add: getDeviceId_def dateNow_def setSetting_def Let_def)

lemma fetch_flag:
  "fetch req (w\<lparr>syncInProgress := b\<rparr>)
     = map_prod id (\<lambda>w'. w'\<lparr>syncInProgress := b\<rparr>) (fetch req w)"
  by (simp add: fetch_def)

lemma driveRequest_flag:
  "driveRequest req (w\<lparr>syncInProgress := b\<rparr>)
     = map_prod id (\<lambda>w'. w'\<lparr>syncInProgress := b\<rparr>) (driveRequest req w)"
  by (simp add: driveRequest_def fetch_def split: status.splits)

lemma findFile_flag:
  "findFile t n (w\<lparr>syncInProgress := b\<rparr>)
     = map_prod id (\<lambda>w'. w'\<lparr>syncInProgress := b\<rparr>) (findFile t n w)"
  by (simp add: findFile_def driveRequest_def fetch_def split: status.splits)

lemma readFile_flag:
  "readFile t i (w\<lparr>syncInProgress := b\<rparr>)
     = map_prod id (\<lambda>w'. w'\<lparr>syncInProgress := b\<rparr>) (readFile t i w)"
  by (simp add: readFile_def driveRequest_def fetch_def split: status.splits option.splits content.splits)

lemma writeFile_flag:
  "writeFile t n c e (w\<lparr>syncInProgress := b\<rparr>)
     = map_prod id (\<lambda>w'. w'\<lparr>syncInProgress := b\<rparr>) (writeFile t n c e w)"
  by (simp add: writeFile_def driveRequest_def fetch_def Let_def split: status.splits option.splits)

lemma getLocalDataWithMetadata_flag:
  "getLocalDataWithMetadata k d (w\<lparr>syncInProgress := b\<rparr>)
     = map_prod id (\<lambda>w'. w'\<lparr>syncInProgress := b\<rparr>) (getLocalDataWithMetadata k d w)"
  by (simp add: getLocalDataWithMetadata_def getDeviceId_flag split: prod.splits)

lemma ensureValidToken_flag:
  "ensureValidToken (w\<lparr>syncInProgress := b\<rparr>)
     = map_prod id (\<lambda>w'. w'\<lparr>syncInProgress := b\<rparr>) (ensureValidToken w)"
  by (simp add: ensureValidToken_def fetch_def split: option.splits status.splits)

lemma upload_flag:
  "upload t n p e (w\<lparr>syncInProgress := b\<rparr>) = (upload t n p e w)\<lparr>syncInProgress := b\<rparr>"
  by (simp add: upload_def dateNow_flag getDeviceId_flag writeFile_flag split: prod.splits)

lemma finish_flag:
  "finish k (w\<lparr>syncInProgress := b\<rparr>)
     = map_prod id (\<lambda>w'. w'\<lparr>syncInProgress := b\<rparr>) (finish k w)"
  by (simp add: finish_def dateNow_flag setSetting_flag split: prod.splits)

lemma syncUnit_flag:
  assumes ld: "\<And>w. loadLocal (w\<lparr>syncInProgress := b\<rparr>) = loadLocal w"
    and ap: "\<And>d l w. applyRemote d l (w\<lparr>syncInProgress := b\<rparr>)
                  = map_sum id (\<lambda>w'. w'\<lparr>syncInProgress := b\<rparr>) (applyRemote d l w)"
  shows "syncUnit key name loadLocal applyRemote (w\<lparr>syncInProgress := b\<rparr>)
     = map_prod id (\<lambda>w'. w'\<lparr>syncInProgress := b\<rparr>) (syncUnit key name loadLocal applyRemote w)"
  by (simp add: syncUnit_def ensureValidToken_flag ld ap getLocalDataWithMetadata_flag
        findFile_flag readFile_flag finish_flag upload_flag Let_def
      split: prod.splits option.splits winner.splits sum.splits)

lemma restoreNotes_flag:
  "restoreNotes d l (w\<lparr>syncInProgress := b\<rparr>)
     = map_sum id (\<lambda>w'. w'\<lparr>syncInProgress := b\<rparr>) (restoreNotes d l w)"
  by (simp add: restoreNotes_def saveNotesToDB_def split: json.splits sum.splits)

lemma fold_setSetting_flag:
  "fold (\<lambda>(key, v). setSetting key v) kvs (w\<lparr>syncInProgress := b\<rparr>)
     = (fold (\<lambda>(key, v). setSetting key v) kvs w)\<lparr>syncInProgress := b\<rparr>"
  by (induction kvs arbitrary: w) (auto simp: setSetting_flag)

lemma restoreSettings_flag:
  "restoreSettings d l (w\<lparr>syncInProgress := b\<rparr>)
     = map_sum id (\<lambda>w'. w'\<lparr>syncInProgress := b\<rparr>) (restoreSettings d l w)"
  by (simp add: restoreSettings_def fold_setSetting_flag split: sum.splits)

lemma mergeActivity_flag:
  "mergeActivity d l (w\<lparr>syncInProgress := b\<rparr>)
     = map_sum id (\<lambda>w'. w'\<lparr>syncInProgress := b\<rparr>) (mergeActivity d l w)"
  by (simp add: mergeActivity_def setSetting_flag split: sum.splits)

lemma syncNotes_flag:
  "syncNotes (w\<lparr>syncInProgress := b\<rparr>) = map_prod id (\<lambda>w'. w'\<lparr>syncInProgress := b\<rparr>) (syncNotes w)"
  unfolding syncNotes_def
  by (rule syncUnit_flag) (simp_all add: loadNotesFromDB_def restoreNotes_flag)

lemma syncTasks_flag:
  "syncTasks (w\<lparr>syncInProgress := b\<rparr>) = map_prod id (\<lambda>w'. w'\<lparr>syncInProgress := b\<rparr>) (syncTasks w)"
  unfolding syncTasks_def
  by (rule syncUnit_flag) (simp_all add: loadTasksFromDB_def saveTasksToDB_def)

lemma syncFolders_flag:
  "syncFolders (w\<lparr>syncInProgress := b\<rparr>) = map_prod id (\<lambda>w'. w'\<lparr>syncInProgress := b\<rparr>) (syncFolders w)"
  unfolding syncFolders_def
  by (rule syncUnit_flag) (simp_all add: loadFolders_def saveFolders_def)

lemma syncSections_flag:
  "syncSections (w\<lparr>syncInProgress := b\<rparr>) = map_prod id (\<lambda>w'. w'\<lparr>syncInProgress := b\<rparr>) (syncSections w)"
  unfolding syncSections_def
  by (rule syncUnit_flag) (simp_all add: setSetting_flag)

lemma syncSettings_flag:
  "syncSettings (w\<lparr>syncInProgress := b\<rparr>) = map_prod id (\<lambda>w'. w'\<lparr>syncInProgress := b\<rparr>) (syncSettings w)"
  unfolding syncSettings_def
  by (rule syncUnit_flag) (simp_all add: syncableSettings_def getAllSettings_def restoreSettings_flag)

lemma syncActivity_flag:
  "syncActivity (w\<lparr>syncInProgress := b\<rparr>) = map_prod id (\<lambda>w'. w'\<lparr>syncInProgress := b\<rparr>) (syncActivity w)"
  unfolding syncActivity_def
  by (rule syncUnit_flag) (simp_all add: getActivities_def mergeActivity_flag)

lemma syncMedia_flag:
  "syncMedia (w\<lparr>syncInProgress := b\<rparr>) = map_prod id (\<lambda>w'. w'\<lparr>syncInProgress := b\<rparr>) (syncMedia w)"
  unfolding syncMedia_def
  by (rule syncUnit_flag) (simp_all add: getLocalMediaIndex_def setSetting_flag)

lemmas sync_flag = syncNotes_flag syncTasks_flag syncFolders_flag syncSections_flag
  syncSettings_flag syncActivity_flag syncMedia_flag

lemma allSettled_Cons:
  "allSettled (u # us) w
     = (Fulfilled (fst (u w)) # fst (allSettled us (snd (u w))), snd (allSettled us (snd (u w))))"
  by (simp split: prod.splits)

text \<open>A method that commutes with the setting of the flag leaves the flag as it is.\<close>

lemma flag_kept:
  assumes "\<And>b w. u (w\<lparr>syncInProgress := b\<rparr>) = map_prod id (\<lambda>w'. w'\<lparr>syncInProgress := b\<rparr>) (u w)"
  shows "syncInProgress (snd (u w)) = syncInProgress w"
proof -
  have "u w = u (w\<lparr>syncInProgress := syncInProgress w\<rparr>)" by simp
  also have "\<dots> = map_prod id (\<lambda>w'. w'\<lparr>syncInProgress := syncInProgress w\<rparr>) (u w)"
    by (rule assms)
  finally have "snd (u w) = (snd (u w))\<lparr>syncInProgress := syncInProgress w\<rparr>"
    by (metis snd_map_prod)
  then have "syncInProgress (snd (u w)) = syncInProgress ((snd (u w))\<lparr>syncInProgress := syncInProgress w\<rparr>)"
    by simp
  then show ?thesis by simp
qed

lemma allSettled_flag_kept:
  assumes "\<And>u w. u \<in> set us \<Longrightarrow> syncInProgress (snd (u w)) = syncInProgress w"
  shows "syncInProgress (snd (allSettled us w)) = syncInProgress w"
  using assms
proof (induction us arbitrary: w)
  case Nil
  then show ?case by simp
next
  case (Cons u us)
  have "syncInProgress (snd (allSettled us (snd (u w)))) = syncInProgress (snd (u w))"
    using Cons by simp
  moreover have "syncInProgress (snd (u w)) = syncInProgress w"
    using Cons.prems by simp
  ultimately show ?case
    by (simp add: allSettled_Cons del: allSettled.simps(2))
qed

lemma units_flag_kept:
  assumes "u \<in> set [syncNotes, syncTasks, syncFolders, syncSections, syncSettings, syncActivity, syncMedia]"
  shows "syncInProgress (snd (u w)) = syncInProgress w"
proof -
  have "\<And>b w. u (w\<lparr>syncInProgress := b\<rparr>) = map_prod id (\<lambda>w'. w'\<lparr>syncInProgress := b\<rparr>) (u w)"
    using assms by (auto simp: sync_flag)
  then show ?thesis by (rule flag_kept)
qed

lemma inflight_flag:
  "syncInProgress (snd (allSettled
      (take k [syncNotes, syncTasks, syncFolders, syncSections, syncSettings, syncActivity, syncMedia])
      (w\<lparr>syncInProgress := True\<rparr>)))"
proof -
  have "syncInProgress (snd (allSettled
      (take k [syncNotes, syncTasks, syncFolders, syncSections, syncSettings, syncActivity, syncMedia])
      (w\<lparr>syncInProgress := True\<rparr>))) = syncInProgress (w\<lparr>syncInProgress := True\<rparr>)"
    by (rule allSettled_flag_kept) (meson in_set_takeD units_flag_kept)
  then show ?thesis by simp
qed

lemma syncAll_rejected:
  "syncInProgress w \<Longrightarrow> syncAll w = (\<lparr>success = False, errors = [''Sync already in progress'']\<rparr>, w)"
  by (simp add: syncAll_def syncAllEnter_def)

lemma allSettled_length: "length (fst (allSettled us w)) = length us"
  by (induction us arbitrary: w) (simp_all add: allSettled_Cons del: allSettled.simps(2))

lemma allSettled_nth:
  "i < length us \<Longrightarrow>
   fst (allSettled us w) ! i = Fulfilled (fst ((us ! i) (snd (allSettled (take i us) w))))"
proof (induction us arbitrary: w i)
  case Nil
  then show ?case by simp
next
  case (Cons u us)
  show ?case
  proof (cases i)
    case 0
    then show ?thesis by (simp add: allSettled_Cons del: allSettled.simps(2))
  next
    case (Suc j)
    then have "j < length us" using Cons.prems by simp
    then have "fst (allSettled us (snd (u w))) ! j
                 = Fulfilled (fst ((us ! j) (snd (allSettled (take j us) (snd (u w))))))"
      by (rule Cons.IH)
    then show ?thesis using Suc by (simp add: allSettled_Cons del: allSettled.simps(2))
  qed
qed

lemma concat_if_filter:
  "concat (map (\<lambda>i. if P i then [g i] else []) xs) = map g (filter P xs)"
  by (induction xs) auto

lemma settled_case_if:
  "(case r of Rejected \<Rightarrow> [m] | Fulfilled v \<Rightarrow> if \<not> v then [m] else [])
     = (if r \<noteq> Fulfilled True then [m] else [])"
  by (cases r) auto

lemma syncAll_errors:
  assumes "\<not> syncInProgress w"
  shows "errors (fst (syncAll w))
     = map (\<lambda>i. ''Failed to sync '' @ [''notes'', ''tasks'', ''folders'', ''sections'', ''settings'',
                                        ''activity'', ''media''] ! i)
         (filter (\<lambda>i. fst (allSettled [syncNotes, syncTasks, syncFolders, syncSections,
                                         syncSettings, syncActivity, syncMedia]
                             (w\<lparr>syncInProgress := True\<rparr>)) ! i \<noteq> Fulfilled True)
                 [0..<7])"
proof -
  obtain results w2 where run:
    "allSettled [syncNotes, syncTasks, syncFolders, syncSections,
                 syncSettings, syncActivity, syncMedia] (w\<lparr>syncInProgress := True\<rparr>) = (results, w2)"
    by (cases "allSettled [syncNotes, syncTasks, syncFolders, syncSections,
                 syncSettings, syncActivity, syncMedia] (w\<lparr>syncInProgress := True\<rparr>)") 
  have len: "length results = 7"
    using allSettled_length [of "[syncNotes, syncTasks, syncFolders, syncSections,
                 syncSettings, syncActivity, syncMedia]" "w\<lparr>syncInProgress := True\<rparr>"] run
    by simp
  show ?thesis
    using assms
    by (simp add: syncAll_def syncAllEnter_def syncAllSettle_def run Let_def len settled_case_if concat_if_filter
          del: allSettled.simps split: prod.splits)
qed

lemma syncUnitLocate_flag:
  assumes ld: "\<And>w. loadLocal (w\<lparr>syncInProgress := b\<rparr>) = loadLocal w"
  shows "syncUnitLocate key name loadLocal (w\<lparr>syncInProgress := b\<rparr>)
     = map_prod id (\<lambda>w'. w'\<lparr>syncInProgress := b\<rparr>) (syncUnitLocate key name loadLocal w)"
  by (simp add: syncUnitLocate_def ensureValidToken_flag ld getLocalDataWithMetadata_flag
        findFile_flag Let_def split: prod.splits option.splits)

lemma syncNotes_waiting_flag:
  "syncInProgress (snd (syncUnitLocate ''notes'' (SYNC_FILES Notes)
                          (\<lambda>w. JArr (loadNotesFromDB w)) w)) = syncInProgress w"
  by (rule flag_kept) (simp add: syncUnitLocate_flag loadNotesFromDB_def)

lemma allSettled_append:
  "allSettled (us @ vs) w
     = (fst (allSettled us w) @ fst (allSettled vs (snd (allSettled us w))),
        snd (allSettled vs (snd (allSettled us w))))"
  by (induction us arbitrary: w) (simp_all add: allSettled_Cons del: allSettled.simps(2))

lemma syncAll_idle:
  "\<not> syncInProgress w \<Longrightarrow>
   syncAll w = syncAllSettle (fst (allSettled syncAllUnits (w\<lparr>syncInProgress := True\<rparr>)))
                 (snd (allSettled syncAllUnits (w\<lparr>syncInProgress := True\<rparr>)))"
  by (simp add: syncAll_def syncAllEnter_def del: allSettled.simps split: prod.splits)

lemma syncAllSettle_clears: "\<not> syncInProgress (snd (syncAllSettle rs w))"
  by (simp add: syncAllSettle_def Let_def split: prod.splits)

text \<open>
  Claim C2. A call of \<^verbatim>\<open>syncAll\<close> that finds the busy flag set returns at once the
  failure report with the error "Sync already in progress" and changes nothing: no
  request is sent, and the local and the remote state are what they were.

  Of two calls with no completion in between exactly one runs. The first, made on an
  idle manager, sets the flag before it waits. The flag is still set while its notes
  method waits for the answer of \<^verbatim>\<open>findFile\<close>, and when any number \<open>k\<close> of its
  methods have settled, so a second call made at such a point is rejected and leaves
  the state as it found it. The first call then goes on with its remaining methods and
  settles with the report and the state it would have had alone; its report is not the
  rejection, and it clears the flag.
\<close>

theorem syncAll_busy:
  "(syncInProgress w \<longrightarrow>
      syncAll w = (\<lparr>success = False, errors = [''Sync already in progress'']\<rparr>, w))
   \<and> (\<not> syncInProgress w0 \<longrightarrow>
        (\<exists>w1. syncAllEnter w0 = Inr w1
           \<and> syncInProgress w1
           \<and> syncAll (snd (syncUnitLocate ''notes'' (SYNC_FILES Notes)
                               (\<lambda>w. JArr (loadNotesFromDB w)) w1))
               = (\<lparr>success = False, errors = [''Sync already in progress'']\<rparr>,
                  snd (syncUnitLocate ''notes'' (SYNC_FILES Notes)
                         (\<lambda>w. JArr (loadNotesFromDB w)) w1))
           \<and> syncInProgress (snd (allSettled (take k syncAllUnits) w1))
           \<and> syncAll (snd (allSettled (take k syncAllUnits) w1))
               = (\<lparr>success = False, errors = [''Sync already in progress'']\<rparr>,
                  snd (allSettled (take k syncAllUnits) w1))
           \<and> syncAllSettle
                (fst (allSettled (take k syncAllUnits) w1)
                 @ fst (allSettled (drop k syncAllUnits)
                      (snd (syncAll (snd (allSettled (take k syncAllUnits) w1))))))
                (snd (allSettled (drop k syncAllUnits)
                      (snd (syncAll (snd (allSettled (take k syncAllUnits) w1))))))
               = syncAll w0)
      \<and> fst (syncAll w0) \<noteq> \<lparr>success = False, errors = [''Sync already in progress'']\<rparr>
      \<and> \<not> syncInProgress (snd (syncAll w0)))"
proof (intro conjI impI)
  let ?E = "w0\<lparr>syncInProgress := True\<rparr>"
  let ?M = "snd (allSettled (take k syncAllUnits) ?E)"
  show "syncAll w = (\<lparr>success = False, errors = [''Sync already in progress'']\<rparr>, w)"
    if "syncInProgress w"
    using that by (rule syncAll_rejected)
  have held: "syncInProgress ?M"
    by (rule inflight_flag)
  have second: "syncAll ?M = (\<lparr>success = False, errors = [''Sync already in progress'']\<rparr>, ?M)"
    using held by (rule syncAll_rejected)
  show "\<exists>w1. syncAllEnter w0 = Inr w1
           \<and> syncInProgress w1
           \<and> syncAll (snd (syncUnitLocate ''notes'' (SYNC_FILES Notes)
                               (\<lambda>w. JArr (loadNotesFromDB w)) w1))
               = (\<lparr>success = False, errors = [''Sync already in progress'']\<rparr>,
                  snd (syncUnitLocate ''notes'' (SYNC_FILES Notes)
                         (\<lambda>w. JArr (loadNotesFromDB w)) w1))
           \<and> syncInProgress (snd (allSettled (take k syncAllUnits) w1))
           \<and> syncAll (snd (allSettled (take k syncAllUnits) w1))
               = (\<lparr>success = False, errors = [''Sync already in progress'']\<rparr>,
                  snd (allSettled (take k syncAllUnits) w1))
           \<and> syncAllSettle
                (fst (allSettled (take k syncAllUnits) w1)
                 @ fst (allSettled (drop k syncAllUnits)
                      (snd (syncAll (snd (allSettled (take k syncAllUnits) w1))))))
                (snd (allSettled (drop k syncAllUnits)
                      (snd (syncAll (snd (allSettled (take k syncAllUnits) w1))))))
               = syncAll w0" if idle: "\<not> syncInProgress w0"
  proof (intro exI [of _ ?E] conjI)
    show "syncAllEnter w0 = Inr ?E"
      using idle by (simp add: syncAllEnter_def)
    show "syncInProgress ?E" by simp
    show "syncAll (snd (syncUnitLocate ''notes'' (SYNC_FILES Notes)
                          (\<lambda>w. JArr (loadNotesFromDB w)) ?E))
               = (\<lparr>success = False, errors = [''Sync already in progress'']\<rparr>,
                  snd (syncUnitLocate ''notes'' (SYNC_FILES Notes)
                         (\<lambda>w. JArr (loadNotesFromDB w)) ?E))"
      by (rule syncAll_rejected) (subst syncNotes_waiting_flag, simp)
    show "syncInProgress ?M" by (rule held)
    show "syncAll ?M = (\<lparr>success = False, errors = [''Sync already in progress'']\<rparr>, ?M)"
      by (rule second)
    have "allSettled syncAllUnits ?E
        = allSettled (take k syncAllUnits @ drop k syncAllUnits) ?E"
      by (simp only: append_take_drop_id)
    also have "\<dots> = (fst (allSettled (take k syncAllUnits) ?E)
                       @ fst (allSettled (drop k syncAllUnits) ?M),
                     snd (allSettled (drop k syncAllUnits) ?M))"
      by (rule allSettled_append)
    finally have whole: "allSettled syncAllUnits ?E
        = (fst (allSettled (take k syncAllUnits) ?E)
                       @ fst (allSettled (drop k syncAllUnits) ?M),
                     snd (allSettled (drop k syncAllUnits) ?M))" .
    show "syncAllSettle
           (fst (allSettled (take k syncAllUnits) ?E)
            @ fst (allSettled (drop k syncAllUnits) (snd (syncAll ?M))))
           (snd (allSettled (drop k syncAllUnits) (snd (syncAll ?M))))
          = syncAll w0"
      unfolding second syncAll_idle [OF idle] whole by (simp only: fst_conv snd_conv)
  qed
  show "fst (syncAll w0) \<noteq> \<lparr>success = False, errors = [''Sync already in progress'']\<rparr>"
    if idle: "\<not> syncInProgress w0"
  proof
    assume "fst (syncAll w0) = \<lparr>success = False, errors = [''Sync already in progress'']\<rparr>"
    then have "errors (fst (syncAll w0)) = [''Sync already in progress'']"
      by simp
    then have "''Sync already in progress'' \<in> set (errors (fst (syncAll w0)))"
      by simp
    then obtain i where "''Sync already in progress''
        = ''Failed to sync '' @ [''notes'', ''tasks'', ''folders'', ''sections'', ''settings'',
                                  ''activity'', ''media''] ! i"
      unfolding syncAll_errors [OF idle] by auto
    then show False by simp
  qed
  show "\<not> syncInProgress (snd (syncAll w0))" if idle: "\<not> syncInProgress w0"
    unfolding syncAll_idle [OF idle] by (rule syncAllSettle_clears)
qed

lemma exampleWorld_full_sync:
  "fst (syncAll exampleWorld) = \<lparr>success = True, errors = []\<rparr>"
  by code_simp

theorem syncAll_busy_witness:
  "syncAll inFlightWorld
     = (\<lparr>success = False, errors = [''Sync already in progress'']\<rparr>, inFlightWorld)
   \<and> (\<exists>w1. syncAllEnter exampleWorld = Inr w1
           \<and> syncInProgress w1
           \<and> syncAll (snd (syncUnitLocate ''notes'' (SYNC_FILES Notes)
                               (\<lambda>w. JArr (loadNotesFromDB w)) w1))
               = (\<lparr>success = False, errors = [''Sync already in progress'']\<rparr>,
                  snd (syncUnitLocate ''notes'' (SYNC_FILES Notes)
                         (\<lambda>w. JArr (loadNotesFromDB w)) w1))
           \<and> syncInProgress (snd (allSettled (take 2 syncAllUnits) w1))
           \<and> syncAll (snd (allSettled (take 2 syncAllUnits) w1))
               = (\<lparr>success = False, errors = [''Sync already in progress'']\<rparr>,
                  snd (allSettled (take 2 syncAllUnits) w1))
           \<and> syncAllSettle
                (fst (allSettled (take 2 syncAllUnits) w1)
                 @ fst (allSettled (drop 2 syncAllUnits)
                      (snd (syncAll (snd (allSettled (take 2 syncAllUnits) w1))))))
                (snd (allSettled (drop 2 syncAllUnits)
                      (snd (syncAll (snd (allSettled (take 2 syncAllUnits) w1))))))
               = syncAll exampleWorld)
   \<and> fst (syncAll exampleWorld) = \<lparr>success = True, errors = []\<rparr>
   \<and> \<not> syncInProgress (snd (syncAll exampleWorld))"
proof -
  have busy: "syncInProgress inFlightWorld"
    by (simp add: inFlightWorld_def)
  have idle: "\<not> syncInProgress exampleWorld"
    by (simp add: exampleWorld_def)
  show ?thesis
    using syncAll_busy [of inFlightWorld exampleWorld 2] busy idle exampleWorld_full_sync
    by blast
qed

section \<open>The report of a full sync\<close>

text \<open>
  Claim C3, as amended. In a full sync that is not rejected all seven methods run, each
  from the state its predecessors left and whatever they returned; the report is a
  success exactly when every method returned \<^verbatim>\<open>true\<close>, and its error list holds, in the
  order of the domains, the message "Failed to sync <domain>" for each domain whose
  method did not.
\<close>

theorem syncAll_report:
  assumes "\<not> syncInProgress w"
  shows "length (fst (allSettled [syncNotes, syncTasks, syncFolders, syncSections,
                                  syncSettings, syncActivity, syncMedia]
                        (w\<lparr>syncInProgress := True\<rparr>))) = 7
       \<and> (\<forall>i<7. fst (allSettled [syncNotes, syncTasks, syncFolders, syncSections,
                                  syncSettings, syncActivity, syncMedia]
                        (w\<lparr>syncInProgress := True\<rparr>)) ! i
             = Fulfilled (fst (([syncNotes, syncTasks, syncFolders, syncSections,
                                 syncSettings, syncActivity, syncMedia] ! i)
                    (snd (allSettled (take i [syncNotes, syncTasks, syncFolders, syncSections,
                                              syncSettings, syncActivity, syncMedia])
                            (w\<lparr>syncInProgress := True\<rparr>))))))
       \<and> success (fst (syncAll w))
           = (\<forall>i<7. fst (allSettled [syncNotes, syncTasks, syncFolders, syncSections,
                                      syncSettings, syncActivity, syncMedia]
                            (w\<lparr>syncInProgress := True\<rparr>)) ! i = Fulfilled True)
       \<and> errors (fst (syncAll w))
           = map (\<lambda>i. ''Failed to sync '' @ [''notes'', ''tasks'', ''folders'', ''sections'',
                                              ''settings'', ''activity'', ''media''] ! i)
               (filter (\<lambda>i. fst (allSettled [syncNotes, syncTasks, syncFolders, syncSections,
                                               syncSettings, syncActivity, syncMedia]
                                   (w\<lparr>syncInProgress := True\<rparr>)) ! i \<noteq> Fulfilled True)
                       [0..<7])"
proof (intro conjI allI impI)
  show "length (fst (allSettled [syncNotes, syncTasks, syncFolders, syncSections,
                                  syncSettings, syncActivity, syncMedia]
                        (w\<lparr>syncInProgress := True\<rparr>))) = 7"
    by (simp add: allSettled_length del: allSettled.simps)
  show "fst (allSettled [syncNotes, syncTasks, syncFolders, syncSections,
                                  syncSettings, syncActivity, syncMedia]
                        (w\<lparr>syncInProgress := True\<rparr>)) ! i
             = Fulfilled (fst (([syncNotes, syncTasks, syncFolders, syncSections,
                                 syncSettings, syncActivity, syncMedia] ! i)
                    (snd (allSettled (take i [syncNotes, syncTasks, syncFolders, syncSections,
                                              syncSettings, syncActivity, syncMedia])
                            (w\<lparr>syncInProgress := True\<rparr>)))))" if "i < 7" for i
    by (rule allSettled_nth) (use that in simp)
  have succ: "success (fst (syncAll w)) = (errors (fst (syncAll w)) = [])"
    using assms by (simp add: syncAll_def syncAllEnter_def syncAllSettle_def Let_def del: allSettled.simps split: prod.splits)
  show "success (fst (syncAll w))
           = (\<forall>i<7. fst (allSettled [syncNotes, syncTasks, syncFolders, syncSections,
                                      syncSettings, syncActivity, syncMedia]
                            (w\<lparr>syncInProgress := True\<rparr>)) ! i = Fulfilled True)"
    unfolding succ syncAll_errors [OF assms]
    by (simp add: filter_empty_conv Ball_def del: allSettled.simps)
  show "errors (fst (syncAll w))
           = map (\<lambda>i. ''Failed to sync '' @ [''notes'', ''tasks'', ''folders'', ''sections'',
                                              ''settings'', ''activity'', ''media''] ! i)
               (filter (\<lambda>i. fst (allSettled [syncNotes, syncTasks, syncFolders, syncSections,
                                               syncSettings, syncActivity, syncMedia]
                                   (w\<lparr>syncInProgress := True\<rparr>)) ! i \<noteq> Fulfilled True)
                       [0..<7])"
    by (rule syncAll_errors [OF assms])
qed

lemma tasksDown_results:
  "fst (allSettled [syncNotes, syncTasks, syncFolders, syncSections,
                    syncSettings, syncActivity, syncMedia]
          (tasksDownWorld\<lparr>syncInProgress := True\<rparr>))
     = [Fulfilled True, Fulfilled False, Fulfilled True, Fulfilled True, Fulfilled True,
        Fulfilled True, Fulfilled True]"
  by code_simp

theorem syncAll_report_witness:
  "errors (fst (syncAll tasksDownWorld)) = [''Failed to sync tasks'']
   \<and> success (fst (syncAll tasksDownWorld)) = False
   \<and> length (fst (allSettled [syncNotes, syncTasks, syncFolders, syncSections,
                               syncSettings, syncActivity, syncMedia]
                     (tasksDownWorld\<lparr>syncInProgress := True\<rparr>))) = 7"
proof -
  have idle: "\<not> syncInProgress tasksDownWorld"
    by (simp add: tasksDownWorld_def exampleWorld_def)
  note report = syncAll_report [OF idle]
  have seven: "[0..<7] = [0, 1, 2, 3, 4, 5, 6]"
    by (simp add: upt_rec)
  have "errors (fst (syncAll tasksDownWorld)) = [''Failed to sync tasks'']"
    using report [THEN conjunct2, THEN conjunct2, THEN conjunct2]
    unfolding tasksDown_results seven by simp
  moreover have "success (fst (syncAll tasksDownWorld)) = False"
  proof -
    have "\<not> (\<forall>i<7. [Fulfilled True, Fulfilled False, Fulfilled True, Fulfilled True,
                     Fulfilled True, Fulfilled True, Fulfilled True] ! i = Fulfilled True)"
      by (rule notI, drule spec [of _ 1]) simp
    then show ?thesis
      using report [THEN conjunct2, THEN conjunct2, THEN conjunct1]
      unfolding tasksDown_results by simp
  qed
  moreover have "length (fst (allSettled [syncNotes, syncTasks, syncFolders, syncSections,
                               syncSettings, syncActivity, syncMedia]
                     (tasksDownWorld\<lparr>syncInProgress := True\<rparr>))) = 7"
    by (rule report [THEN conjunct1])
  ultimately show ?thesis by simp
qed

text \<open>
  The claim as stated fails: when only the tasks method fails, the error list is not the
  list of the failed domain's name.
\<close>

theorem syncAll_errors_are_messages:
  "fst (syncAll tasksDownWorld) = \<lparr>success = False, errors = [''Failed to sync tasks'']\<rparr>
   \<and> errors (fst (syncAll tasksDownWorld)) \<noteq> [''tasks'']"
  by code_simp

section \<open>Instant sync during a full sync\<close>

lemma syncUnit_phases:
  "syncUnit key name loadLocal applyRemote w =
     (case syncUnitLocate key name loadLocal w of
        (None, w0) \<Rightarrow> (False, w0)
      | (Some located, w2) \<Rightarrow> syncUnitSettle key name applyRemote located w2)"
  by (simp add: syncUnit_def syncUnitLocate_def syncUnitSettle_def Let_def
        split: prod.splits option.splits)

text \<open>
  Claim C4 does not hold of the code. \<^verbatim>\<open>instantSync\<close> tests the access token and
  nothing else; it neither reads nor sets the busy flag. A full sync has entered and set
  the flag, and its notes method has asked Drive for the notes file, found none, and
  waits. Now \<^verbatim>\<open>instantSync('notes')\<close>, which the listener of \<^verbatim>\<open>notesUpdated\<close>
  calls, is not held back: it runs the notes method, which creates the notes file. The
  notes method of the full sync goes on from the answer it got and creates the notes
  file too. The two have written the same domain's file in one another's course, and
  Drive holds two files of that name.
\<close>

theorem instantSync_during_full_sync:
  "syncAllEnter exampleWorld = Inr inFlightWorld
   \<and> syncInProgress inFlightWorld
   \<and> fst (syncUnitLocate ''notes'' (SYNC_FILES Notes) (\<lambda>w. JArr (loadNotesFromDB w)) inFlightWorld)
       = Some (''token'', JArr (notesDB inFlightWorld),
               \<lparr>data = JArr (notesDB inFlightWorld),
                metadata = \<lparr>lastSyncTime = JIso 0, deviceId = JStr ''device_1_abc'',
                             version = 1\<rparr>\<rparr>, None)
   \<and> syncInProgress
        (snd (syncUnitLocate ''notes'' (SYNC_FILES Notes) (\<lambda>w. JArr (loadNotesFromDB w))
                inFlightWorld))
   \<and> fst (instantSync Notes
        (snd (syncUnitLocate ''notes'' (SYNC_FILES Notes) (\<lambda>w. JArr (loadNotesFromDB w))
                inFlightWorld))) = True
   \<and> map fileName (files (snd (instantSync Notes
        (snd (syncUnitLocate ''notes'' (SYNC_FILES Notes) (\<lambda>w. JArr (loadNotesFromDB w))
                inFlightWorld))))) = [''nota_notes.json'']
   \<and> map fileName (files (snd (syncUnitSettle ''notes'' (SYNC_FILES Notes) restoreNotes
        (''token'', JArr (notesDB inFlightWorld),
               \<lparr>data = JArr (notesDB inFlightWorld),
                metadata = \<lparr>lastSyncTime = JIso 0, deviceId = JStr ''device_1_abc'',
                             version = 1\<rparr>\<rparr>, None)
        (snd (instantSync Notes
          (snd (syncUnitLocate ''notes'' (SYNC_FILES Notes) (\<lambda>w. JArr (loadNotesFromDB w))
                  inFlightWorld)))))))
       = [''nota_notes.json'', ''nota_notes.json'']
   \<and> log (snd (syncUnitSettle ''notes'' (SYNC_FILES Notes) restoreNotes
        (''token'', JArr (notesDB inFlightWorld),
               \<lparr>data = JArr (notesDB inFlightWorld),
                metadata = \<lparr>lastSyncTime = JIso 0, deviceId = JStr ''device_1_abc'',
                             version = 1\<rparr>\<rparr>, None)
        (snd (instantSync Notes
          (snd (syncUnitLocate ''notes'' (SYNC_FILES Notes) (\<lambda>w. JArr (loadNotesFromDB w))
                  inFlightWorld))))))
      = [Probe ''token'', Find ''token'' ''nota_notes.json'',
         Probe ''token'', Find ''token'' ''nota_notes.json'',
         Write ''token'' ''nota_notes.json''
           (Envelope \<lparr>data = JArr [JObj [(''id'', JStr ''n1''), (''createdAt'', JIso 5)]],
                      metadata = \<lparr>lastSyncTime = JIso 1000, deviceId = JStr ''device_1_abc'',
                                   version = 1\<rparr>\<rparr>) None,
         Write ''token'' ''nota_notes.json''
           (Envelope \<lparr>data = JArr [JObj [(''id'', JStr ''n1''), (''createdAt'', JIso 5)]],
                      metadata = \<lparr>lastSyncTime = JIso 1002, deviceId = JStr ''device_1_abc'',
                                   version = 1\<rparr>\<rparr>) None]"
  by (rule conjI) (simp add: syncAllEnter_def inFlightWorld_def exampleWorld_def, code_simp)

section \<open>The time of the last full sync\<close>

text \<open>
  Claim C10. A full sync that is not rejected stores, after its seven methods have
  settled and whatever they returned, the clock reading of that moment under
  \<^verbatim>\<open>last_full_sync\<close>; afterwards \<^verbatim>\<open>getLastSyncTime\<close> returns that date, not
  \<^verbatim>\<open>null\<close>, and the busy flag is cleared.
\<close>

theorem syncAll_stamps_last_full_sync:
  assumes "\<not> syncInProgress w"
  shows "getSetting ''last_full_sync'' (JStr []) (snd (syncAll w))
           = JIso (clock (snd (allSettled [syncNotes, syncTasks, syncFolders, syncSections,
                                           syncSettings, syncActivity, syncMedia]
                                 (w\<lparr>syncInProgress := True\<rparr>)))
                     (ticks (snd (allSettled [syncNotes, syncTasks, syncFolders, syncSections,
                                              syncSettings, syncActivity, syncMedia]
                                    (w\<lparr>syncInProgress := True\<rparr>)))))
       \<and> getLastSyncTime (snd (syncAll w))
           = Some (JDate (Num (clock (snd (allSettled [syncNotes, syncTasks, syncFolders,
                                           syncSections, syncSettings, syncActivity, syncMedia]
                                 (w\<lparr>syncInProgress := True\<rparr>)))
                     (ticks (snd (allSettled [syncNotes, syncTasks, syncFolders, syncSections,
                                              syncSettings, syncActivity, syncMedia]
                                    (w\<lparr>syncInProgress := True\<rparr>)))))))
       \<and> getLastSyncTime (snd (syncAll w)) \<noteq> None
       \<and> \<not> syncInProgress (snd (syncAll w))"
  using assms
  by (simp add: syncAll_def syncAllEnter_def syncAllSettle_def Let_def getLastSyncTime_def getSetting_def setSetting_def
        dateNow_def dispatchEvent_def newDate_def update_conv'
        del: allSettled.simps split: prod.splits)

lemma signedOutWorld_settled:
  "clock (snd (allSettled [syncNotes, syncTasks, syncFolders, syncSections,
                           syncSettings, syncActivity, syncMedia]
                 (signedOutWorld\<lparr>syncInProgress := True\<rparr>)))
     (ticks (snd (allSettled [syncNotes, syncTasks, syncFolders, syncSections,
                              syncSettings, syncActivity, syncMedia]
                    (signedOutWorld\<lparr>syncInProgress := True\<rparr>)))) = 1000"
  "fst (allSettled [syncNotes, syncTasks, syncFolders, syncSections,
                    syncSettings, syncActivity, syncMedia]
          (signedOutWorld\<lparr>syncInProgress := True\<rparr>))
     = [Fulfilled False, Fulfilled False, Fulfilled False, Fulfilled False, Fulfilled False,
        Fulfilled False, Fulfilled False]"
  by code_simp+

theorem syncAll_stamps_last_full_sync_witness:
  "fst (allSettled [syncNotes, syncTasks, syncFolders, syncSections,
                    syncSettings, syncActivity, syncMedia]
          (signedOutWorld\<lparr>syncInProgress := True\<rparr>))
     = [Fulfilled False, Fulfilled False, Fulfilled False, Fulfilled False, Fulfilled False,
        Fulfilled False, Fulfilled False]
   \<and> getSetting ''last_full_sync'' (JStr []) (snd (syncAll signedOutWorld)) = JIso 1000
   \<and> getLastSyncTime (snd (syncAll signedOutWorld)) = Some (JDate (Num 1000))
   \<and> \<not> syncInProgress (snd (syncAll signedOutWorld))"
proof -
  have idle: "\<not> syncInProgress signedOutWorld"
    by (simp add: signedOutWorld_def exampleWorld_def)
  show ?thesis
    using syncAll_stamps_last_full_sync [OF idle]
    unfolding signedOutWorld_settled by simp
qed

section \<open>The requests of a method when the network answers\<close>

lemma fetch_ok:
  "net w (length (log w)) = Ok \<Longrightarrow> fetch req w = (Ok, w\<lparr>log := log w @ [req]\<rparr>)"
  by (simp add: fetch_def)

lemma driveRequest_ok:
  "net w (length (log w)) = Ok \<Longrightarrow> driveRequest req w = (Inr True, w\<lparr>log := log w @ [req]\<rparr>)"
  by (simp add: driveRequest_def fetch_ok)

lemma ensureValidToken_ok:
  "accessToken w = Some tok \<Longrightarrow> tok \<noteq> [] \<Longrightarrow> net w (length (log w)) = Ok \<Longrightarrow>
   ensureValidToken w = (Some tok, w\<lparr>log := log w @ [Probe tok]\<rparr>)"
  by (simp add: ensureValidToken_def fetch_ok)

lemma findFile_ok:
  "net w (length (log w)) = Ok \<Longrightarrow>
   findFile tok name w = (find (\<lambda>f. fileName f = name) (files w), w\<lparr>log := log w @ [Find tok name]\<rparr>)"
  by (simp add: findFile_def driveRequest_ok)

lemma readFile_ok:
  "net w (length (log w)) = Ok \<Longrightarrow> find (\<lambda>f. fileId f = fid) (files w) = Some f \<Longrightarrow>
   readFile tok fid w
     = (case fileContent f of Unparseable \<Rightarrow> None | Envelope e \<Rightarrow> Some e,
        w\<lparr>log := log w @ [Read tok fid]\<rparr>)"
  by (simp add: readFile_def driveRequest_ok split: content.splits)

lemma writeFile_create_ok:
  "net w (length (log w)) = Ok \<Longrightarrow>
   writeFile tok name c None w
     = (Some (nextFileId w),
        w\<lparr>log := log w @ [Write tok name (Envelope (wireEnvelope c)) None],
          files := files w @ [\<lparr>fileId = nextFileId w, fileName = name,
                                fileContent = Envelope (wireEnvelope c)\<rparr>],
          nextFileId := Suc (nextFileId w)\<rparr>)"
  by (simp add: writeFile_def driveRequest_ok Let_def)

lemma writeFile_update_ok:
  "net w (length (log w)) = Ok \<Longrightarrow> fid \<in> fileId ` set (files w) \<Longrightarrow>
   writeFile tok name c (Some fid) w
     = (Some fid,
        w\<lparr>log := log w @ [Write tok name (Envelope (wireEnvelope c)) (Some fid)],
          files := map (\<lambda>f. if fileId f = fid
                              then f\<lparr>fileName := name, fileContent := Envelope (wireEnvelope c)\<rparr>
                              else f) (files w)\<rparr>)"
  by (simp add: writeFile_def driveRequest_ok Let_def)

text \<open>The device id, once read, is stored and read again unchanged.\<close>

lemma getDeviceId_unfold:
  "getDeviceId w =
     (if falsy (getSetting ''device_id'' (JStr []) w)
      then (JStr (''device_'' @ showInt (clock w (ticks w)) @ ''_'' @ rnd w),
            w\<lparr>ticks := Suc (ticks w),
              settings := AList.update ''device_id''
                 (JStr (''device_'' @ showInt (clock w (ticks w)) @ ''_'' @ rnd w)) (settings w)\<rparr>)
      else (getSetting ''device_id'' (JStr []) w, w))"
  by (simp add: getDeviceId_def dateNow_def setSetting_def Let_def)

lemma getDeviceId_frame:
  "log (snd (getDeviceId w)) = log w" "net (snd (getDeviceId w)) = net w"
  "clock (snd (getDeviceId w)) = clock w" "files (snd (getDeviceId w)) = files w"
  "nextFileId (snd (getDeviceId w)) = nextFileId w" "accessToken (snd (getDeviceId w)) = accessToken w"
  "notesDB (snd (getDeviceId w)) = notesDB w" "rnd (snd (getDeviceId w)) = rnd w"
  "ticks (snd (getDeviceId w)) = ticks w + (if falsy (getSetting ''device_id'' (JStr []) w) then 1 else 0)"
  by (simp_all add: getDeviceId_unfold)

lemma getDeviceId_stored:
  "getSetting ''device_id'' (JStr []) (snd (getDeviceId w)) = fst (getDeviceId w)"
  "\<not> falsy (fst (getDeviceId w))"
  by (simp_all add: getDeviceId_unfold getSetting_def update_conv')

lemma getDeviceId_again:
  "getDeviceId (snd (getDeviceId w)) = (fst (getDeviceId w), snd (getDeviceId w))"
proof -
  have "\<not> falsy (getSetting ''device_id'' (JStr []) (snd (getDeviceId w)))"
    by (simp add: getDeviceId_stored)
  then show ?thesis
    by (subst getDeviceId_unfold) (simp add: getDeviceId_stored)
qed

lemma getDeviceId_log_update:
  "getDeviceId (w\<lparr>log := l\<rparr>) = map_prod id (\<lambda>w'. w'\<lparr>log := l\<rparr>) (getDeviceId w)"
  by (simp add: getDeviceId_unfold getSetting_def)

lemma syncUnit_first_sync:
  assumes "accessToken w = Some tok" and "tok \<noteq> []"
    and "\<forall>n. net w n = Ok"
    and "find (\<lambda>f. fileName f = name) (files w) = None"
  shows "syncUnit key name loadLocal applyRemote w =
     (True,
      (snd (getDeviceId w))
        \<lparr> log := log w @ [Probe tok, Find tok name,
               Write tok name
                 (Envelope (wireEnvelope
                    \<lparr>data = loadLocal (w\<lparr>log := log w @ [Probe tok]\<rparr>),
                     metadata = \<lparr>lastSyncTime = JIso (clock w (ticks (snd (getDeviceId w)))),
                                  deviceId = fst (getDeviceId w), version = 1\<rparr>\<rparr>)) None],
          files := files w @ [\<lparr>fileId = nextFileId w, fileName = name,
               fileContent = Envelope (wireEnvelope
                    \<lparr>data = loadLocal (w\<lparr>log := log w @ [Probe tok]\<rparr>),
                     metadata = \<lparr>lastSyncTime = JIso (clock w (ticks (snd (getDeviceId w)))),
                                  deviceId = fst (getDeviceId w), version = 1\<rparr>\<rparr>)\<rparr>],
          nextFileId := Suc (nextFileId w),
          ticks := ticks (snd (getDeviceId w)) + 2,
          settings := AList.update (''sync_'' @ key @ ''_time'')
                        (JIso (clock w (ticks (snd (getDeviceId w)) + 1)))
                        (settings (snd (getDeviceId w))) \<rparr>)"
  using assms
  by (cases "falsy (getSetting ''device_id'' (JStr []) w)")
     (simp_all add: syncUnit_def ensureValidToken_ok getLocalDataWithMetadata_def
        getDeviceId_unfold getSetting_def findFile_ok upload_def dateNow_def
        writeFile_create_ok finish_def setSetting_def update_conv' Let_def)

lemma syncUnit_remote_exists:
  assumes "accessToken w = Some tok" and "tok \<noteq> []"
    and "\<forall>n. net w n = Ok"
    and "find (\<lambda>f. fileName f = name) (files w) = Some rf"
    and "find (\<lambda>f. fileId f = fileId rf) (files w) = Some f"
    and "fileContent f = Envelope remote"
  shows "syncUnit key name loadLocal applyRemote w =
     (if js_gt (getTime (getSetting (''sync_'' @ key @ ''_time'') (JIso 0) w))
               (getTime (lastSyncTime (metadata remote)))
      then (True,
        (snd (getDeviceId w))
          \<lparr> log := log w @ [Probe tok, Find tok name, Read tok (fileId rf),
               Write tok name
                 (Envelope (wireEnvelope
                    \<lparr>data = loadLocal (w\<lparr>log := log w @ [Probe tok]\<rparr>),
                     metadata = \<lparr>lastSyncTime = JIso (clock w (ticks (snd (getDeviceId w)))),
                                  deviceId = fst (getDeviceId w), version = 1\<rparr>\<rparr>))
                 (Some (fileId rf))],
            files := map (\<lambda>g. if fileId g = fileId rf
                 then g\<lparr>fileName := name,
                        fileContent := Envelope (wireEnvelope
                    \<lparr>data = loadLocal (w\<lparr>log := log w @ [Probe tok]\<rparr>),
                     metadata = \<lparr>lastSyncTime = JIso (clock w (ticks (snd (getDeviceId w)))),
                                  deviceId = fst (getDeviceId w), version = 1\<rparr>\<rparr>)\<rparr>
                 else g) (files w),
            ticks := ticks (snd (getDeviceId w)) + 2,
            settings := AList.update (''sync_'' @ key @ ''_time'')
                          (JIso (clock w (ticks (snd (getDeviceId w)) + 1)))
                          (settings (snd (getDeviceId w))) \<rparr>)
      else (case applyRemote (data remote) (loadLocal (w\<lparr>log := log w @ [Probe tok]\<rparr>))
                   ((snd (getDeviceId w))
                      \<lparr>log := log w @ [Probe tok, Find tok name, Read tok (fileId rf)]\<rparr>) of
              Inl e \<Rightarrow> (False, (snd (getDeviceId w))
                      \<lparr>log := log w @ [Probe tok, Find tok name, Read tok (fileId rf)]\<rparr>)
            | Inr w4 \<Rightarrow> finish key w4))"
proof -
  have mem: "fileId rf \<in> fileId ` set (files w)"
    using assms(4) by (metis find_Some_iff image_eqI nth_mem)
  show ?thesis
    using assms mem
    by (cases "falsy (getSetting ''device_id'' (JStr []) w)")
       (simp_all add: syncUnit_def ensureValidToken_ok getLocalDataWithMetadata_def
          getDeviceId_unfold getSetting_def findFile_ok readFile_ok upload_def dateNow_def
          writeFile_update_ok finish_def setSetting_def update_conv' Let_def
          resolveConflict_def split: sum.splits)
qed

lemma syncUnit_unreadable:
  assumes "accessToken w = Some tok" and "tok \<noteq> []"
    and "\<forall>n. net w n = Ok"
    and "find (\<lambda>f. fileName f = name) (files w) = Some rf"
    and "find (\<lambda>f. fileId f = fileId rf) (files w) = Some f"
    and "fileContent f = Unparseable"
  shows "syncUnit key name loadLocal applyRemote w =
     (True,
      (snd (getDeviceId w))
        \<lparr> log := log w @ [Probe tok, Find tok name, Read tok (fileId rf)],
          ticks := ticks (snd (getDeviceId w)) + 1,
          settings := AList.update (''sync_'' @ key @ ''_time'')
                        (JIso (clock w (ticks (snd (getDeviceId w)))))
                        (settings (snd (getDeviceId w))) \<rparr>)"
  using assms
  by (cases "falsy (getSetting ''device_id'' (JStr []) w)")
     (simp_all add: syncUnit_def ensureValidToken_ok getLocalDataWithMetadata_def
        getDeviceId_unfold getSetting_def findFile_ok readFile_ok dateNow_def
        finish_def setSetting_def update_conv' Let_def)

section \<open>The merge of the activity log\<close>

lemma wellFormedEntry_idOf:
  "wellFormedEntry e \<Longrightarrow> idOf e = Inr (getProp e ''id'') \<and> \<not> falsy e"
  by (cases e) (simp_all add: wellFormedEntry_def)

lemma wellFormedEntry_strictEq:
  "wellFormedEntry a \<Longrightarrow> wellFormedEntry b \<Longrightarrow>
   strictEq (getProp a ''id'') (getProp b ''id'') = (getProp a ''id'' = getProp b ''id'')"
  by (cases a; cases b; cases "getProp a ''id''"; cases "getProp b ''id''")
     (auto simp: wellFormedEntry_def)

lemma findById_wellFormed:
  "\<forall>e \<in> set acc. wellFormedEntry e \<Longrightarrow> wellFormedEntry entry \<Longrightarrow>
   findById acc entry = Inr (find (\<lambda>e. getProp e ''id'' = getProp entry ''id'') acc)"
  by (induction acc) (auto simp: wellFormedEntry_idOf wellFormedEntry_strictEq)

lemma find_None_key:
  "find (\<lambda>e. k e = k entry) acc = None \<longleftrightarrow> k entry \<notin> k ` set acc"
  unfolding find_None_iff by (metis image_iff)

lemma find_app:
  "find P (xs @ ys) = (case find P xs of None \<Rightarrow> find P ys | Some x \<Rightarrow> Some x)"
  by (induction xs) auto

lemma reduceLog_step:
  assumes "\<forall>e \<in> set acc. wellFormedEntry e" and "wellFormedEntry entry"
  shows "reduceLog acc (entry # rest)
     = (if getProp entry ''id'' \<in> (\<lambda>e. getProp e ''id'') ` set acc
        then reduceLog acc rest else reduceLog (acc @ [entry]) rest)"
proof (cases "find (\<lambda>e. getProp e ''id'' = getProp entry ''id'') acc")
  case None
  then show ?thesis
    using assms find_None_key [of "\<lambda>e. getProp e ''id''" entry acc]
    by (simp add: findById_wellFormed)
next
  case (Some e)
  then have "e \<in> set acc" and "getProp e ''id'' = getProp entry ''id''"
    by (auto simp: find_Some_iff)
  then have "\<not> falsy e"
    using assms wellFormedEntry_idOf by blast
  moreover have "getProp entry ''id'' \<in> (\<lambda>e. getProp e ''id'') ` set acc"
    using \<open>e \<in> set acc\<close> \<open>getProp e ''id'' = getProp entry ''id''\<close> by (metis imageI)
  ultimately show ?thesis
    using assms Some by (simp add: findById_wellFormed)
qed

lemma reduceLog_wellFormed:
  assumes "\<forall>e \<in> set acc. wellFormedEntry e" and "\<forall>e \<in> set xs. wellFormedEntry e"
    and "distinct (map (\<lambda>e. getProp e ''id'') acc)"
  shows "\<exists>m. reduceLog acc xs = Inr m
           \<and> distinct (map (\<lambda>e. getProp e ''id'') m)
           \<and> (\<lambda>e. getProp e ''id'') ` set m
               = (\<lambda>e. getProp e ''id'') ` set acc \<union> (\<lambda>e. getProp e ''id'') ` set xs
           \<and> set m \<subseteq> set acc \<union> set xs
           \<and> (\<forall>e \<in> set m. find (\<lambda>x. getProp x ''id'' = getProp e ''id'') (acc @ xs) = Some e)"
  using assms
proof (induction xs arbitrary: acc)
  case Nil
  have "find (\<lambda>x. getProp x ''id'' = getProp e ''id'') acc = Some e" if "e \<in> set acc" for e
    using that Nil.prems(3)
  proof (induction acc)
    case Nil
    then show ?case by simp
  next
    case (Cons a acc)
    then show ?case by (auto simp: image_iff)
  qed
  then show ?case using Nil by simp
next
  case (Cons entry rest)
  have wf: "wellFormedEntry entry" and wfr: "\<forall>e \<in> set rest. wellFormedEntry e"
    using Cons.prems(2) by simp_all
  show ?case
  proof (cases "getProp entry ''id'' \<in> (\<lambda>e. getProp e ''id'') ` set acc")
    case True
    obtain m where m: "reduceLog acc rest = Inr m"
        "distinct (map (\<lambda>e. getProp e ''id'') m)"
        "(\<lambda>e. getProp e ''id'') ` set m
           = (\<lambda>e. getProp e ''id'') ` set acc \<union> (\<lambda>e. getProp e ''id'') ` set rest"
        "set m \<subseteq> set acc \<union> set rest"
        "\<forall>e \<in> set m. find (\<lambda>x. getProp x ''id'' = getProp e ''id'') (acc @ rest) = Some e"
      using Cons.IH [OF Cons.prems(1) wfr Cons.prems(3)] by blast
    have "find (\<lambda>x. getProp x ''id'' = getProp e ''id'') (acc @ entry # rest) = Some e"
      if "e \<in> set m" for e
    proof (cases "find (\<lambda>x. getProp x ''id'' = getProp e ''id'') acc")
      case None
      then have "getProp e ''id'' \<notin> (\<lambda>e. getProp e ''id'') ` set acc"
        by (auto simp: find_None_iff)
      then have "getProp entry ''id'' \<noteq> getProp e ''id''"
        using True by auto
      then show ?thesis
        using m(5) [rule_format, OF that] None by (simp add: find_app)
    next
      case (Some y)
      then show ?thesis
        using m(5) [rule_format, OF that] by (simp add: find_app)
    qed
    then show ?thesis
      using m True Cons.prems(1) wf by (auto simp: reduceLog_step simp del: reduceLog.simps)
  next
    case False
    have wf': "\<forall>e \<in> set (acc @ [entry]). wellFormedEntry e"
      using Cons.prems(1) wf by simp
    have d': "distinct (map (\<lambda>e. getProp e ''id'') (acc @ [entry]))"
      using Cons.prems(3) False by simp
    obtain m where m: "reduceLog (acc @ [entry]) rest = Inr m"
        "distinct (map (\<lambda>e. getProp e ''id'') m)"
        "(\<lambda>e. getProp e ''id'') ` set m
           = (\<lambda>e. getProp e ''id'') ` set (acc @ [entry]) \<union> (\<lambda>e. getProp e ''id'') ` set rest"
        "set m \<subseteq> set (acc @ [entry]) \<union> set rest"
        "\<forall>e \<in> set m. find (\<lambda>x. getProp x ''id'' = getProp e ''id'') ((acc @ [entry]) @ rest) = Some e"
      using Cons.IH [OF wf' wfr d'] by blast
    show ?thesis
      using m False Cons.prems(1) wf by (auto simp: reduceLog_step simp del: reduceLog.simps)
  qed
qed

text \<open>
  Claim C5. When the remote side wins in \<^verbatim>\<open>syncActivity\<close>, the log stored locally is
  the merge of the remote and the local entries by id: every id of either side occurs
  exactly once, every stored entry is an entry of one of the two sides, namely the first
  one of its id in the remote entries followed by the local ones. Entries are objects
  whose id is a primitive value. For local ids 1, 2 and remote ids 2, 3 the stored
  entries have the ids 2, 3, 1.
\<close>

theorem syncActivity_merges:
  assumes tok: "accessToken w = Some tok" "tok \<noteq> []"
    and net: "\<forall>n. net w n = Ok"
    and byname: "find (\<lambda>f. fileName f = ''nota_activity.json'') (files w) = Some rf"
    and byid: "find (\<lambda>f. fileId f = fileId rf) (files w) = Some f"
    and content: "fileContent f = Envelope remote"
    and wins: "fst (resolveConflict
                 \<lparr>data = getActivities w,
                  metadata = \<lparr>lastSyncTime = getSetting ''sync_activity_time'' (JIso 0) w,
                               deviceId = fst (getDeviceId w), version = 1\<rparr>\<rparr> remote) = Remote"
    and remoteLog: "data remote = JArr rs"
    and localLog: "getActivities w = JArr ls"
    and wf: "\<forall>e \<in> set (rs @ ls). wellFormedEntry e"
  shows "fst (syncActivity w) = True
       \<and> (\<exists>m. getSetting ''userActivityLog'' (JArr []) (snd (syncActivity w)) = JArr m
              \<and> distinct (map (\<lambda>e. getProp e ''id'') m)
              \<and> (\<lambda>e. getProp e ''id'') ` set m
                   = (\<lambda>e. getProp e ''id'') ` set rs \<union> (\<lambda>e. getProp e ''id'') ` set ls
              \<and> set m \<subseteq> set rs \<union> set ls
              \<and> (\<forall>e \<in> set m. find (\<lambda>x. getProp x ''id'' = getProp e ''id'') (rs @ ls) = Some e))"
proof -
  have lose: "\<not> js_gt (getTime (getSetting ''sync_activity_time'' (JIso 0) w))
                       (getTime (lastSyncTime (metadata remote)))"
    using wins by (simp add: resolveConflict_def split: if_splits)
  obtain m where m: "reduceLog [] (rs @ ls) = Inr m"
      "distinct (map (\<lambda>e. getProp e ''id'') m)"
      "(\<lambda>e. getProp e ''id'') ` set m
         = (\<lambda>e. getProp e ''id'') ` set [] \<union> (\<lambda>e. getProp e ''id'') ` set (rs @ ls)"
      "set m \<subseteq> set [] \<union> set (rs @ ls)"
      "\<forall>e \<in> set m. find (\<lambda>x. getProp x ''id'' = getProp e ''id'') ([] @ rs @ ls) = Some e"
    using reduceLog_wellFormed [of "[]" "rs @ ls"] wf by auto
  have loc: "getActivities (w\<lparr>log := l\<rparr>) = JArr ls" for l
    using localLog by (simp add: getActivities_def getSetting_def)
  note run = syncUnit_remote_exists [OF tok net byname byid content,
      where key = "''activity''" and loadLocal = getActivities and applyRemote = mergeActivity]
  have unit: "syncActivity w
      = syncUnit ''activity'' ''nota_activity.json'' getActivities mergeActivity w"
    by (simp add: syncActivity_def)
  have "fst (syncActivity w) = True"
    and "getSetting ''userActivityLog'' (JArr []) (snd (syncActivity w)) = JArr m"
    using lose m(1)
    by (simp_all add: unit run loc remoteLog mergeActivity_def finish_def dateNow_def
          setSetting_def getSetting_def update_conv')
  then show ?thesis
    using m by (auto simp: image_Un)
qed

lemma activityWorld_merged:
  "getSetting ''userActivityLog'' (JArr []) (snd (syncActivity activityWorld))
     = JArr [JObj [(''id'', JNum 2), (''type'', JStr ''note_update'')],
             JObj [(''id'', JNum 3), (''type'', JStr ''note_delete'')],
             JObj [(''id'', JNum 1), (''type'', JStr ''note_create'')]]"
  by code_simp

theorem syncActivity_merges_witness:
  "fst (syncActivity activityWorld) = True
   \<and> getSetting ''userActivityLog'' (JArr []) (snd (syncActivity activityWorld))
     = JArr [JObj [(''id'', JNum 2), (''type'', JStr ''note_update'')],
             JObj [(''id'', JNum 3), (''type'', JStr ''note_delete'')],
             JObj [(''id'', JNum 1), (''type'', JStr ''note_create'')]]"
proof -
  have "fst (syncActivity activityWorld) = True"
    using syncActivity_merges [of activityWorld "''token''"
        "\<lparr>fileId = 0, fileName = ''nota_activity.json'',
                  fileContent = Envelope
                     \<lparr>data = JArr [JObj [(''id'', JNum 2), (''type'', JStr ''note_update'')],
                                   JObj [(''id'', JNum 3), (''type'', JStr ''note_delete'')]],
                      metadata = \<lparr>lastSyncTime = JIso 500, deviceId = JStr ''device_2_xyz'',
                                   version = 1\<rparr>\<rparr>\<rparr>"
        "\<lparr>fileId = 0, fileName = ''nota_activity.json'',
                  fileContent = Envelope
                     \<lparr>data = JArr [JObj [(''id'', JNum 2), (''type'', JStr ''note_update'')],
                                   JObj [(''id'', JNum 3), (''type'', JStr ''note_delete'')]],
                      metadata = \<lparr>lastSyncTime = JIso 500, deviceId = JStr ''device_2_xyz'',
                                   version = 1\<rparr>\<rparr>\<rparr>"
        "\<lparr>data = JArr [JObj [(''id'', JNum 2), (''type'', JStr ''note_update'')],
                                   JObj [(''id'', JNum 3), (''type'', JStr ''note_delete'')]],
                      metadata = \<lparr>lastSyncTime = JIso 500, deviceId = JStr ''device_2_xyz'',
                                   version = 1\<rparr>\<rparr>"
        "[JObj [(''id'', JNum 2), (''type'', JStr ''note_update'')],
          JObj [(''id'', JNum 3), (''type'', JStr ''note_delete'')]]"
        "[JObj [(''id'', JNum 1), (''type'', JStr ''note_create'')],
          JObj [(''id'', JNum 2), (''type'', JStr ''note_update'')]]"]
    by (simp add: activityWorld_def exampleWorld_def getActivities_def getSetting_def
          resolveConflict_def wellFormedEntry_def)
  then show ?thesis
    using activityWorld_merged by simp
qed

lemma find_snoc:
  "find P (xs @ [x]) = (case find P xs of Some y \<Rightarrow> Some y | None \<Rightarrow> if P x then Some x else None)"
  by (induction xs) auto

lemma finish_frame:
  "files (snd (finish key w)) = files w" "log (snd (finish key w)) = log w"
  "notesDB (snd (finish key w)) = notesDB w" "fst (finish key w) = True"
  by (simp_all add: finish_def dateNow_def setSetting_def)

lemma restoreNotes_frame:
  "restoreNotes d l w = Inr w' \<Longrightarrow> files w' = files w \<and> log w' = log w"
  by (auto simp: restoreNotes_def saveNotesToDB_def split: json.splits sum.splits)

section \<open>The first sync of a domain\<close>

text \<open>
  When the token is valid, every request is answered and Drive holds no notes file,
  \<^verbatim>\<open>syncNotes\<close> reports success and adds exactly one file: the local notes, as
  JSON, in an envelope with the clock reading of that moment, this device's id and
  version 1. A second run right after it, the local notes being the same, adds no
  file: the folder holds the same one file under the same id, with the same payload and
  device id, and at most the \<open>lastSyncTime\<close> of its envelope has changed. When the
  clock has advanced between the two time stamps of the first run, the second run
  writes the file in place through its id, with the new clock reading.
\<close>

lemma syncNotes_first_sync_answered:
  assumes tok: "accessToken w = Some tok" "tok \<noteq> []"
    and net: "\<forall>n. net w n = Ok"
    and absent: "\<forall>f \<in> set (files w). fileName f \<noteq> ''nota_notes.json''"
    and ids: "\<forall>f \<in> set (files w). fileId f < nextFileId w"
  shows "fst (syncNotes w) = True
       \<and> files (snd (syncNotes w))
           = files w @ [\<lparr>fileId = nextFileId w, fileName = ''nota_notes.json'',
                          fileContent = Envelope
                            \<lparr>data = wire (JArr (notesDB w)),
                             metadata = \<lparr>lastSyncTime = JIso (clock w (ticks (snd (getDeviceId w)))),
                                          deviceId = wire (fst (getDeviceId w)),
                                          version = 1\<rparr>\<rparr>\<rparr>]
       \<and> notesDB (snd (syncNotes w)) = notesDB w
       \<and> (\<exists>t. files (snd (syncNotes (snd (syncNotes w))))
                = files w @ [\<lparr>fileId = nextFileId w, fileName = ''nota_notes.json'',
                          fileContent = Envelope
                            \<lparr>data = wire (JArr (notesDB w)),
                             metadata = \<lparr>lastSyncTime = JIso t,
                                          deviceId = wire (fst (getDeviceId w)),
                                          version = 1\<rparr>\<rparr>\<rparr>])
       \<and> length (files (snd (syncNotes (snd (syncNotes w))))) = Suc (length (files w))
       \<and> (clock w (ticks (snd (getDeviceId w))) < clock w (ticks (snd (getDeviceId w)) + 1) \<longrightarrow>
            fst (syncNotes (snd (syncNotes w))) = True
          \<and> last (log (snd (syncNotes (snd (syncNotes w)))))
              = Write tok ''nota_notes.json''
                  (Envelope
                     \<lparr>data = wire (JArr (notesDB w)),
                      metadata = \<lparr>lastSyncTime = JIso (clock w (ticks (snd (getDeviceId w)) + 2)),
                                   deviceId = wire (fst (getDeviceId w)),
                                   version = 1\<rparr>\<rparr>)
                  (Some (nextFileId w))
          \<and> files (snd (syncNotes (snd (syncNotes w))))
                = files w @ [\<lparr>fileId = nextFileId w, fileName = ''nota_notes.json'',
                          fileContent = Envelope
                            \<lparr>data = wire (JArr (notesDB w)),
                             metadata = \<lparr>lastSyncTime = JIso (clock w (ticks (snd (getDeviceId w)) + 2)),
                                          deviceId = wire (fst (getDeviceId w)),
                                          version = 1\<rparr>\<rparr>\<rparr>])"
proof -
  let ?wd = "snd (getDeviceId w)"
  let ?dev = "fst (getDeviceId w)"
  let ?T1 = "clock w (ticks ?wd)"
  let ?T2 = "clock w (ticks ?wd + 1)"
  let ?T3 = "clock w (ticks ?wd + 2)"
  let ?file = "\<lambda>t. \<lparr>fileId = nextFileId w, fileName = ''nota_notes.json'',
                  fileContent = Envelope
                    \<lparr>data = wire (JArr (notesDB w)),
                     metadata = \<lparr>lastSyncTime = JIso t, deviceId = wire ?dev, version = 1\<rparr>\<rparr>\<rparr>"
  define w1 where "w1 = snd (syncNotes w)"
  have nofile: "find (\<lambda>f. fileName f = ''nota_notes.json'') (files w) = None"
    using absent by (simp add: find_None_iff)
  have noid: "find (\<lambda>f. fileId f = nextFileId w) (files w) = None"
    using ids by (auto simp: find_None_iff)
  note run1 = syncUnit_first_sync [OF tok net nofile]
  have first: "syncNotes w = (True, w1)"
    and files1: "files w1 = files w @ [?file ?T1]"
    and frame1: "accessToken w1 = Some tok" "net w1 = net w" "clock w1 = clock w"
      "notesDB w1 = notesDB w" "log w1 \<noteq> []"
    and time1: "getSetting ''sync_notes_time'' (JIso 0) w1 = JIso ?T2"
    and dev1: "getSetting ''device_id'' (JStr []) w1 = ?dev"
    and ticks1: "ticks w1 = ticks ?wd + 2"
    using getDeviceId_stored(1) [of w] tok
    by (simp_all add: w1_def syncNotes_def run1 getDeviceId_frame wireEnvelope_def
          loadNotesFromDB_def getSetting_def update_conv')
  have present: "getDeviceId w1 = (?dev, w1)"
    using dev1 getDeviceId_stored(2) [of w] by (simp add: getDeviceId_unfold)
  have byname: "find (\<lambda>f. fileName f = ''nota_notes.json'') (files w1) = Some (?file ?T1)"
    by (simp add: files1 find_snoc nofile)
  have byid: "find (\<lambda>f. fileId f = fileId (?file ?T1)) (files w1) = Some (?file ?T1)"
    by (simp add: files1 find_snoc noid)
  have net1: "\<forall>n. net w1 n = Ok"
    using net by (simp add: frame1)
  have tok1: "tok \<noteq> []" by (rule tok)
  note second = syncUnit_remote_exists [OF frame1(1) tok1 net1 byname byid,
      where key = "''notes''" and loadLocal = "\<lambda>w. JArr (notesDB w)"
        and applyRemote = restoreNotes]
  have unit: "syncNotes w1
      = syncUnit ''notes'' ''nota_notes.json'' (\<lambda>w. JArr (notesDB w)) restoreNotes w1"
    by (simp add: syncNotes_def loadNotesFromDB_def)
  have upd: "map (\<lambda>g. if fileId g = nextFileId w then g\<lparr>fileName := n, fileContent := c\<rparr> else g)
               (files w) = files w" for n c
    by (rule map_idI) (use ids in auto)
  show ?thesis
  proof (cases "?T1 < ?T2")
    case True
    have run: "syncNotes w1 = (True, w1
          \<lparr> log := log w1 @ [Probe tok, Find tok ''nota_notes.json'', Read tok (nextFileId w),
               Write tok ''nota_notes.json'' (Envelope
                     \<lparr>data = wire (JArr (notesDB w)),
                      metadata = \<lparr>lastSyncTime = JIso ?T3, deviceId = wire ?dev, version = 1\<rparr>\<rparr>)
                 (Some (nextFileId w))],
            files := files w @ [?file ?T3],
            ticks := ticks w1 + 2,
            settings := AList.update ''sync_notes_time'' (JIso (clock w (ticks w1 + 1))) (settings w1) \<rparr>)"
      using True
      by (simp add: unit second time1 present frame1 ticks1 files1 upd wireEnvelope_def
            loadNotesFromDB_def)
    show ?thesis
      using first files1 frame1 True run by (simp add: w1_def [symmetric])
  next
    case False
    then have tie: "\<not> ?T1 < ?T2" .
    have "files (snd (syncNotes w1)) = files w1"
      using tie
      by (auto simp: unit second time1 present frame1 finish_frame dest: restoreNotes_frame
            split: sum.splits)
    then show ?thesis
      using first files1 frame1 tie by (simp add: w1_def [symmetric])
  qed
qed


text \<open>
  Claim C7 does not hold of the code. \<^verbatim>\<open>findFile\<close> returns \<^verbatim>\<open>null\<close> both when
  Drive has no file of the name and when its request fails, and the methods take
  \<^verbatim>\<open>null\<close> for "no file yet". The first run of \<^verbatim>\<open>syncNotes\<close> creates the
  notes file. In the second run, made right after it with the same local notes, the
  search fails on the network; the method creates a second notes file and reports
  success. The result of \<^verbatim>\<open>writeFile\<close> is not looked at either: a first run whose
  creation request is refused reports success, stores a sync time, and has created no
  file.
\<close>

theorem syncNotes_second_sync_duplicates:
  "files searchDownWorld = []
   \<and> fst (syncNotes searchDownWorld) = True
   \<and> map fileName (files (snd (syncNotes searchDownWorld))) = [''nota_notes.json'']
   \<and> notesDB (snd (syncNotes searchDownWorld)) = notesDB searchDownWorld
   \<and> fst (syncNotes (snd (syncNotes searchDownWorld))) = True
   \<and> files (snd (syncNotes (snd (syncNotes searchDownWorld))))
       = [\<lparr>fileId = 0, fileName = ''nota_notes.json'',
           fileContent = Envelope
             \<lparr>data = JArr [JObj [(''id'', JStr ''n1''), (''createdAt'', JIso 5)]],
              metadata = \<lparr>lastSyncTime = JIso 1000, deviceId = JStr ''device_1_abc'',
                           version = 1\<rparr>\<rparr>\<rparr>,
          \<lparr>fileId = 1, fileName = ''nota_notes.json'',
           fileContent = Envelope
             \<lparr>data = JArr [JObj [(''id'', JStr ''n1''), (''createdAt'', JIso 5)]],
              metadata = \<lparr>lastSyncTime = JIso 1002, deviceId = JStr ''device_1_abc'',
                           version = 1\<rparr>\<rparr>\<rparr>]
   \<and> log (snd (syncNotes (snd (syncNotes searchDownWorld))))
       = [Probe ''token'', Find ''token'' ''nota_notes.json'',
          Write ''token'' ''nota_notes.json''
            (Envelope \<lparr>data = JArr [JObj [(''id'', JStr ''n1''), (''createdAt'', JIso 5)]],
                       metadata = \<lparr>lastSyncTime = JIso 1000, deviceId = JStr ''device_1_abc'',
                                    version = 1\<rparr>\<rparr>) None,
          Probe ''token'', Find ''token'' ''nota_notes.json'',
          Write ''token'' ''nota_notes.json''
            (Envelope \<lparr>data = JArr [JObj [(''id'', JStr ''n1''), (''createdAt'', JIso 5)]],
                       metadata = \<lparr>lastSyncTime = JIso 1002, deviceId = JStr ''device_1_abc'',
                                    version = 1\<rparr>\<rparr>) None]
   \<and> map (net searchDownWorld) [0, 1, 2, 3, 4, 5] = [Ok, Ok, Ok, Ok, NetworkError, Ok]
   \<and> fst (syncNotes createDownWorld) = True
   \<and> files (snd (syncNotes createDownWorld)) = []
   \<and> getSetting ''sync_notes_time'' (JIso 0) (snd (syncNotes createDownWorld)) = JIso 1001"
  by code_simp

section \<open>What a method sends\<close>



















section \<open>The settings that leave the device\<close>





section \<open>A remote file that does not parse\<close>

text \<open>
  Claim C6 does not hold of the code. A remote notes file whose content does not parse: \<^verbatim>\<open>readFile\<close> returns \<^verbatim>\<open>null\<close>,
  the method skips the block guarded by \<^verbatim>\<open>if (remoteData)\<close>, stores a new sync time
  and returns \<^verbatim>\<open>true\<close>. The local notes and the remote file stay as they were.
\<close>

theorem syncNotes_unparseable_remote:
  "fst (syncNotes unparseableWorld) = True
   \<and> getSetting ''sync_notes_time'' (JIso 0) unparseableWorld = JIso 0
   \<and> getSetting ''sync_notes_time'' (JIso 0) (snd (syncNotes unparseableWorld)) = JIso 1000
   \<and> notesDB (snd (syncNotes unparseableWorld)) = notesDB unparseableWorld
   \<and> files (snd (syncNotes unparseableWorld)) = files unparseableWorld
   \<and> log (snd (syncNotes unparseableWorld))
       = [Probe ''token'', Find ''token'' ''nota_notes.json'', Read ''token'' 0]"
  by code_simp

end
